theory Spec2Isabelle
  imports Complex_Main "HOL-Library.List_Lexorder" "HOL-Library.Char_ord"
begin

section \<open>Double arithmetic\<close>

text \<open>
  A C++ \<^verbatim>\<open>double\<close> is the real number it denotes, so comparisons are those of the
  reals, and every sum, difference, product and quotient the source computes is rounded to
  the nearest IEEE-754 binary64 number, ties to the even significand.  NaN, the infinities
  and the sign of zero are not modelled: a result beyond the largest finite double is rounded
  as if the exponent range had no upper end.
\<close>

text \<open>
  For \<open>x \<ge> 1\<close>, how often \<open>x\<close> can be halved before it is below \<open>2\<close>; for
  \<open>0 \<le> x < 1\<close>, how often it must be doubled to reach \<open>1\<close>.  The bounds are the
  largest and the smallest exponent of a normal double.
\<close>

fun halvings :: "nat \<Rightarrow> real \<Rightarrow> nat" where
  "halvings 0 x = 0"
| "halvings (Suc n) x = (if x < 2 then 0 else Suc (halvings n (x / 2)))"

fun doublings :: "nat \<Rightarrow> real \<Rightarrow> nat" where
  "doublings 0 x = 0"
| "doublings (Suc n) x = (if 1 \<le> x then 0 else Suc (doublings n (x * 2)))"

definition exponent :: "real \<Rightarrow> int" where
  "exponent x = (if 1 \<le> x then int (halvings 1023 x) else - int (doublings 1022 x))"

text \<open>The distance between neighbouring doubles around \<open>x\<close>: 52 fraction bits.\<close>

definition ulp :: "real \<Rightarrow> real" where
  "ulp x = (let e = exponent \<bar>x\<bar> - 52 in if 0 \<le> e then 2 ^ nat e else 1 / 2 ^ nat (- e))"

definition round_half_even :: "real \<Rightarrow> int" where
  "round_half_even x =
     (let n = \<lfloor>x\<rfloor>; r = x - of_int n
      in if r < 1 / 2 then n else if 1 / 2 < r then n + 1 else if even n then n else n + 1)"

definition binary64 :: "real \<Rightarrow> real" where
  "binary64 x = of_int (round_half_even (x / ulp x)) * ulp x"

definition dadd :: "real \<Rightarrow> real \<Rightarrow> real" where
  "dadd x y = binary64 (x + y)"

definition dsub :: "real \<Rightarrow> real \<Rightarrow> real" where
  "dsub x y = binary64 (x - y)"


definition ddiv :: "real \<Rightarrow> real \<Rightarrow> real" where
  "ddiv x y = binary64 (x / y)"

section \<open>Actuators (actuators.hpp)\<close>

text \<open>
  Every class with fields is a record, every virtual call a function on a datatype with
  one constructor per concrete class, and a member function that mutates the object
  returns the new object beside its result.
\<close>

record MotorController =
  mc_name :: string
  mc_commandValue :: real
  mc_feedbackValue :: real
  mc_minLimit :: real
  mc_maxLimit :: real
  mc_interlockActive :: bool
  mc_enabled :: bool

record HydraulicValve =
  hv_name :: string
  hv_position :: real
  hv_targetPosition :: real
  hv_interlockActive :: bool

datatype IActuator = Motor MotorController | Valve HydraulicValve

text \<open>\<^verbatim>\<open>std::clamp(v, lo, hi)\<close>: \<^verbatim>\<open>(v < lo) ? lo : (hi < v) ? hi : v\<close>.\<close>

definition std_clamp :: "real \<Rightarrow> real \<Rightarrow> real \<Rightarrow> real" where
  "std_clamp v lo hi = (if v < lo then lo else if hi < v then hi else v)"

definition MotorController_new :: "string \<Rightarrow> real \<Rightarrow> real \<Rightarrow> MotorController" where
  "MotorController_new name minLim maxLim =
     \<lparr>mc_name = name, mc_commandValue = 0, mc_feedbackValue = 0,
      mc_minLimit = minLim, mc_maxLimit = maxLim,
      mc_interlockActive = False, mc_enabled = False\<rparr>"

definition ThrusterMotor :: "string \<Rightarrow> MotorController" where
  "ThrusterMotor name = MotorController_new name (- 100) 100"

definition HydraulicValve_new :: "string \<Rightarrow> HydraulicValve" where
  "HydraulicValve_new name =
     \<lparr>hv_name = name, hv_position = 0, hv_targetPosition = 0, hv_interlockActive = False\<rparr>"

definition MotorController_initialize :: "MotorController \<Rightarrow> bool \<times> MotorController" where
  "MotorController_initialize m = (True, m\<lparr>mc_enabled := True, mc_commandValue := 0\<rparr>)"

definition MotorController_update :: "MotorController \<Rightarrow> bool \<times> MotorController" where
  "MotorController_update m =
     (if \<not> mc_enabled m \<or> mc_interlockActive m then (False, m\<lparr>mc_commandValue := 0\<rparr>)
      else (True, m))"

definition MotorController_shutdown :: "MotorController \<Rightarrow> bool \<times> MotorController" where
  "MotorController_shutdown m = (True, m\<lparr>mc_commandValue := 0, mc_enabled := False\<rparr>)"

definition MotorController_setCommand :: "real \<Rightarrow> MotorController \<Rightarrow> bool \<times> MotorController" where
  "MotorController_setCommand v m =
     (if \<not> mc_enabled m \<or> mc_interlockActive m then (False, m)
      else (True, m\<lparr>mc_commandValue := std_clamp v (mc_minLimit m) (mc_maxLimit m)\<rparr>))"

definition HydraulicValve_initialize :: "HydraulicValve \<Rightarrow> bool \<times> HydraulicValve" where
  "HydraulicValve_initialize h = (True, h\<lparr>hv_position := 0\<rparr>)"

definition HydraulicValve_update :: "HydraulicValve \<Rightarrow> bool \<times> HydraulicValve" where
  "HydraulicValve_update h =
     (if hv_interlockActive h then (False, h\<lparr>hv_targetPosition := 0\<rparr>)
      else (True, h\<lparr>hv_position :=
              dadd (hv_position h)
                (std_clamp (dsub (hv_targetPosition h) (hv_position h)) (- 5) 5)\<rparr>))"

definition HydraulicValve_shutdown :: "HydraulicValve \<Rightarrow> bool \<times> HydraulicValve" where
  "HydraulicValve_shutdown h = (True, h\<lparr>hv_targetPosition := 0, hv_position := 0\<rparr>)"

definition HydraulicValve_setCommand :: "real \<Rightarrow> HydraulicValve \<Rightarrow> bool \<times> HydraulicValve" where
  "HydraulicValve_setCommand v h =
     (if hv_interlockActive h then (False, h)
      else (True, h\<lparr>hv_targetPosition := std_clamp v 0 100\<rparr>))"

text \<open>The virtual interface of \<^verbatim>\<open>IActuator\<close>, dispatched on the concrete class.\<close>

fun setCommand :: "real \<Rightarrow> IActuator \<Rightarrow> bool \<times> IActuator" where
  "setCommand v (Motor m) = map_prod id Motor (MotorController_setCommand v m)"
| "setCommand v (Valve h) = map_prod id Valve (HydraulicValve_setCommand v h)"

fun getCommand :: "IActuator \<Rightarrow> real" where
  "getCommand (Motor m) = mc_commandValue m"
| "getCommand (Valve h) = hv_targetPosition h"


fun hasInterlock :: "IActuator \<Rightarrow> bool" where
  "hasInterlock (Motor m) = mc_interlockActive m"
| "hasInterlock (Valve h) = hv_interlockActive h"

fun actuator_initialize :: "IActuator \<Rightarrow> bool \<times> IActuator" where
  "actuator_initialize (Motor m) = map_prod id Motor (MotorController_initialize m)"
| "actuator_initialize (Valve h) = map_prod id Valve (HydraulicValve_initialize h)"

fun actuator_update :: "IActuator \<Rightarrow> bool \<times> IActuator" where
  "actuator_update (Motor m) = map_prod id Motor (MotorController_update m)"
| "actuator_update (Valve h) = map_prod id Valve (HydraulicValve_update h)"

fun actuator_shutdown :: "IActuator \<Rightarrow> bool \<times> IActuator" where
  "actuator_shutdown (Motor m) = map_prod id Motor (MotorController_shutdown m)"
| "actuator_shutdown (Valve h) = map_prod id Valve (HydraulicValve_shutdown h)"

text \<open>
  The range a command is clamped to: the two limits of a motor controller, the
  constants \<open>0\<close> and \<open>100\<close> written in \<^verbatim>\<open>HydraulicValve::setCommand\<close>.
\<close>

fun minLimit :: "IActuator \<Rightarrow> real" where
  "minLimit (Motor m) = mc_minLimit m"
| "minLimit (Valve h) = 0"

fun maxLimit :: "IActuator \<Rightarrow> real" where
  "maxLimit (Motor m) = mc_maxLimit m"
| "maxLimit (Valve h) = 100"

text \<open>
  Only \<^verbatim>\<open>MotorController\<close> has an \<^verbatim>\<open>enabled_\<close> flag (false after construction and
  after \<^verbatim>\<open>shutdown\<close>, true after \<^verbatim>\<open>initialize\<close>); a valve is never disabled.
\<close>

fun isEnabled :: "IActuator \<Rightarrow> bool" where
  "isEnabled (Motor m) = mc_enabled m"
| "isEnabled (Valve h) = True"

text \<open>\<^verbatim>\<open>setInterlock\<close>, a member of both concrete classes.\<close>

fun setInterlock :: "bool \<Rightarrow> IActuator \<Rightarrow> IActuator" where
  "setInterlock active (Motor m) = Motor (m\<lparr>mc_interlockActive := active\<rparr>)"
| "setInterlock active (Valve h) = Valve (h\<lparr>hv_interlockActive := active\<rparr>)"

section \<open>Sensors (sensors.hpp)\<close>

record PressureSensor =
  ps_name :: string
  ps_currentValue :: real
  ps_calibrationOffset :: real
  ps_healthy :: bool
  ps_historyBuffer :: "real list"

record TemperatureSensor =
  ts_name :: string
  ts_currentValue :: real
  ts_healthy :: bool

record IMUData =
  roll :: real
  pitch :: real
  yaw :: real
  accelX :: real
  accelY :: real
  accelZ :: real

record IMUSensor =
  imu_name :: string
  imu_data :: IMUData
  imu_healthy :: bool

datatype ISensor = Pressure PressureSensor | Temperature TemperatureSensor | IMU IMUSensor

definition BUFFER_SIZE :: nat where
  "BUFFER_SIZE = 10"

definition PressureSensor_new :: "string \<Rightarrow> PressureSensor" where
  "PressureSensor_new name =
     \<lparr>ps_name = name, ps_currentValue = 0, ps_calibrationOffset = 0, ps_healthy = False,
      ps_historyBuffer = []\<rparr>"

definition TemperatureSensor_new :: "string \<Rightarrow> TemperatureSensor" where
  "TemperatureSensor_new name = \<lparr>ts_name = name, ts_currentValue = 0, ts_healthy = False\<rparr>"

definition IMUSensor_new :: "string \<Rightarrow> IMUSensor" where
  "IMUSensor_new name =
     \<lparr>imu_name = name,
      imu_data = \<lparr>roll = 0, pitch = 0, yaw = 0, accelX = 0, accelY = 0, accelZ = 0\<rparr>,
      imu_healthy = False\<rparr>"

text \<open>
  \<^verbatim>\<open>PressureSensor::readValue\<close>: the deque is a list with its front at the head;
  \<^verbatim>\<open>pop_front\<close> is only reached on a buffer of at least ten entries, so \<open>tl\<close> is
  applied to a non-empty list.  \<^verbatim>\<open>std::accumulate\<close> from \<open>0.0\<close> is a left fold of
  double additions, and the division is by the size converted to a double.
\<close>

definition PressureSensor_readValue :: "PressureSensor \<Rightarrow> real \<times> PressureSensor" where
  "PressureSensor_readValue s =
     (let popped = (if length (ps_historyBuffer s) \<ge> BUFFER_SIZE
                    then tl (ps_historyBuffer s) else ps_historyBuffer s);
          pushed = popped @ [dadd (ps_currentValue s) (ps_calibrationOffset s)]
      in (ddiv (foldl dadd 0 pushed) (real (length pushed)), s\<lparr>ps_historyBuffer := pushed\<rparr>))"

definition PressureSensor_calibrate :: "PressureSensor \<Rightarrow> bool \<times> PressureSensor" where
  "PressureSensor_calibrate s = (True, s\<lparr>ps_calibrationOffset := - ps_currentValue s\<rparr>)"

fun readValue :: "ISensor \<Rightarrow> real \<times> ISensor" where
  "readValue (Pressure s) = map_prod id Pressure (PressureSensor_readValue s)"
| "readValue (Temperature s) = (ts_currentValue s, Temperature s)"
| "readValue (IMU s) = (yaw (imu_data s), IMU s)"

text \<open>
  Every sensor's \<^verbatim>\<open>update\<close> is a placeholder that returns the health flag: where the
  hardware would be read nothing is assigned.  The measured values are therefore fields that
  no function of the model writes, and the properties below hold for whatever values they
  have.
\<close>

fun sensor_update :: "ISensor \<Rightarrow> bool \<times> ISensor" where
  "sensor_update (Pressure s) = (ps_healthy s, Pressure s)"
| "sensor_update (Temperature s) = (ts_healthy s, Temperature s)"
| "sensor_update (IMU s) = (imu_healthy s, IMU s)"

fun sensor_initialize :: "ISensor \<Rightarrow> bool \<times> ISensor" where
  "sensor_initialize (Pressure s) = (True, Pressure (s\<lparr>ps_healthy := True\<rparr>))"
| "sensor_initialize (Temperature s) = (True, Temperature (s\<lparr>ts_healthy := True\<rparr>))"
| "sensor_initialize (IMU s) = (True, IMU (s\<lparr>imu_healthy := True\<rparr>))"

fun sensor_shutdown :: "ISensor \<Rightarrow> bool \<times> ISensor" where
  "sensor_shutdown (Pressure s) = (True, Pressure (s\<lparr>ps_healthy := False\<rparr>))"
| "sensor_shutdown (Temperature s) = (True, Temperature (s\<lparr>ts_healthy := False\<rparr>))"
| "sensor_shutdown (IMU s) = (True, IMU (s\<lparr>imu_healthy := False\<rparr>))"

fun calibrate :: "ISensor \<Rightarrow> bool \<times> ISensor" where
  "calibrate (Pressure s) = map_prod id Pressure (PressureSensor_calibrate s)"
| "calibrate (Temperature s) = (True, Temperature s)"
| "calibrate (IMU s) = (True, IMU s)"




text \<open>
  The sensors the code can produce: the fields are private, so a sensor is what a
  constructor made and the public member functions changed.
\<close>

inductive sensor_reachable :: "ISensor \<Rightarrow> bool" where
  new_pressure: "sensor_reachable (Pressure (PressureSensor_new name))"
| new_temperature: "sensor_reachable (Temperature (TemperatureSensor_new name))"
| new_imu: "sensor_reachable (IMU (IMUSensor_new name))"
| after_initialize: "sensor_reachable s \<Longrightarrow> sensor_reachable (snd (sensor_initialize s))"
| after_update: "sensor_reachable s \<Longrightarrow> sensor_reachable (snd (sensor_update s))"
| after_shutdown: "sensor_reachable s \<Longrightarrow> sensor_reachable (snd (sensor_shutdown s))"
| after_readValue: "sensor_reachable s \<Longrightarrow> sensor_reachable (snd (readValue s))"
| after_calibrate: "sensor_reachable s \<Longrightarrow> sensor_reachable (snd (calibrate s))"

text \<open>
  What all of them have in common, since no member function assigns a measured value:
  every number in the sensor is zero, and the buffer holds at most ten entries.
\<close>

fun all_zero :: "ISensor \<Rightarrow> bool" where
  "all_zero (Pressure s) =
     (ps_currentValue s = 0 \<and> ps_calibrationOffset s = 0 \<and>
      ps_historyBuffer s = replicate (length (ps_historyBuffer s)) 0 \<and>
      length (ps_historyBuffer s) \<le> BUFFER_SIZE)"
| "all_zero (Temperature s) = (ts_currentValue s = 0)"
| "all_zero (IMU s) =
     (imu_data s = \<lparr>roll = 0, pitch = 0, yaw = 0, accelX = 0, accelY = 0, accelZ = 0\<rparr>)"

section \<open>Shared objects\<close>

text \<open>
  Sensors and actuators are held through \<^verbatim>\<open>std::shared_ptr\<close> by the control system,
  by the safety monitor and by the closures of the safety limits.  The objects live in a
  store, and a pointer is the index of its object there; the program creates every pointer
  with \<^verbatim>\<open>make_shared\<close>, so the theorems below are about indices inside the store.
\<close>

record World =
  sensorObjs :: "ISensor list"
  actuatorObjs :: "IActuator list"

text \<open>An exception thrown by a closure, with its \<^verbatim>\<open>what()\<close> text.\<close>

datatype exception = Exception string

text \<open>\<^verbatim>\<open>actuator->setCommand(v)\<close> with the result dropped, as the callers do.\<close>

definition setCommand_at :: "nat \<Rightarrow> real \<Rightarrow> World \<Rightarrow> World" where
  "setCommand_at h v w =
     w\<lparr>actuatorObjs := (actuatorObjs w)[h := snd (setCommand v (actuatorObjs w ! h))]\<rparr>"

text \<open>
  The closure \<^verbatim>\<open>[&]() { return sensor->readValue(); }\<close> that \<^verbatim>\<open>main\<close> binds to a
  safety limit.
\<close>

definition readSensor :: "nat \<Rightarrow> World \<Rightarrow> (exception + real) \<times> World" where
  "readSensor h w =
     (case readValue (sensorObjs w ! h) of
        (v, s) \<Rightarrow> (Inr v, w\<lparr>sensorObjs := (sensorObjs w)[h := s]\<rparr>))"

text \<open>A closure of the same kind on an actuator: \<^verbatim>\<open>[&]() { return actuator->getCommand(); }\<close>.\<close>

definition readCommand :: "nat \<Rightarrow> World \<Rightarrow> (exception + real) \<times> World" where
  "readCommand h w = (Inr (getCommand (actuatorObjs w ! h)), w)"

text \<open>\<^verbatim>\<open>actuator->setInterlock(active)\<close> on an actuator of the store.\<close>

definition setInterlock_at :: "nat \<Rightarrow> bool \<Rightarrow> World \<Rightarrow> World" where
  "setInterlock_at h active w =
     w\<lparr>actuatorObjs := (actuatorObjs w)[h := setInterlock active (actuatorObjs w ! h)]\<rparr>"

text \<open>
  A store the code can produce holds sensors the code can produce.  A closure can reach a
  sensor only through its public member functions, so it keeps such a store one, with as
  many sensors.
\<close>

definition sensors_reachable :: "World \<Rightarrow> bool" where
  "sensors_reachable w = (\<forall>s\<in>set (sensorObjs w). sensor_reachable s)"

definition keeps_sensors :: "(World \<Rightarrow> (exception + real) \<times> World) \<Rightarrow> bool" where
  "keeps_sensors getValue =
     (\<forall>w. sensors_reachable w \<longrightarrow>
        sensors_reachable (snd (getValue w)) \<and>
        length (sensorObjs (snd (getValue w))) = length (sensorObjs w))"

section \<open>Safety monitor (safety.hpp)\<close>

text \<open>
  \<^verbatim>\<open>getValue\<close> is a \<^verbatim>\<open>std::function<double()>\<close>: a closure that may read and change
  the objects it captured and that either returns a number or throws.
\<close>

record SafetyLimit =
  sl_name :: string
  sl_getValue :: "World \<Rightarrow> (exception + real) \<times> World"
  sl_minValue :: real
  sl_maxValue :: real
  sl_isActive :: bool

record SafetyMonitor =
  sm_limits :: "SafetyLimit list"
  sm_controlledActuators :: "nat list"
  sm_systemSafe :: bool
  sm_lastViolation :: string

definition SafetyMonitor_new :: SafetyMonitor where
  "SafetyMonitor_new =
     \<lparr>sm_limits = [], sm_controlledActuators = [], sm_systemSafe = True, sm_lastViolation = []\<rparr>"

definition SafetyMonitor_initialize :: "SafetyMonitor \<Rightarrow> bool \<times> SafetyMonitor" where
  "SafetyMonitor_initialize m = (True, m\<lparr>sm_systemSafe := True\<rparr>)"

text \<open>The inner loop of \<^verbatim>\<open>update\<close>: \<^verbatim>\<open>setCommand(0.0)\<close> on every controlled actuator.\<close>

fun trigger_interlocks :: "nat list \<Rightarrow> World \<Rightarrow> World" where
  "trigger_interlocks [] w = w"
| "trigger_interlocks (h # hs) w = trigger_interlocks hs (setCommand_at h 0 w)"

text \<open>
  The loop over \<^verbatim>\<open>limits_\<close>.  It returns the exception that left it, if any, the
  limits with their flags as the loop wrote them, the monitor's other fields and the
  store.  \<open>to_string\<close> stands for \<^verbatim>\<open>std::to_string(double)\<close>.
\<close>

fun update_loop ::
  "(real \<Rightarrow> string) \<Rightarrow> SafetyLimit list \<Rightarrow> SafetyMonitor \<Rightarrow> World \<Rightarrow>
     exception option \<times> SafetyLimit list \<times> SafetyMonitor \<times> World" where
  "update_loop to_string [] m w = (None, [], m, w)"
| "update_loop to_string (limit # rest) m w =
     (case sl_getValue limit w of
        (Inl e, w1) \<Rightarrow> (Some e, limit # rest, m, w1)
      | (Inr v, w1) \<Rightarrow>
          if v < sl_minValue limit \<or> v > sl_maxValue limit then
            (None, limit\<lparr>sl_isActive := True\<rparr> # rest,
             m\<lparr>sm_systemSafe := False,
               sm_lastViolation := sl_name limit @ '' out of range: '' @ to_string v\<rparr>,
             trigger_interlocks (sm_controlledActuators m) w1)
          else
            (case update_loop to_string rest m w1 of
               (r, rest', m', w') \<Rightarrow> (r, limit\<lparr>sl_isActive := False\<rparr> # rest', m', w')))"

text \<open>
  \<^verbatim>\<open>SafetyMonitor::update\<close>: \<open>Inr True\<close> is the return value, \<open>Inl e\<close> an exception
  that a closure threw and nothing caught.
\<close>

definition SafetyMonitor_update ::
  "(real \<Rightarrow> string) \<Rightarrow> SafetyMonitor \<Rightarrow> World \<Rightarrow> (exception + bool) \<times> SafetyMonitor \<times> World" where
  "SafetyMonitor_update to_string m w =
     (case update_loop to_string (sm_limits m) (m\<lparr>sm_systemSafe := True\<rparr>) w of
        (None, ls, m', w') \<Rightarrow> (Inr True, m'\<lparr>sm_limits := ls\<rparr>, w')
      | (Some e, ls, m', w') \<Rightarrow> (Inl e, m'\<lparr>sm_limits := ls\<rparr>, w'))"

definition addLimit ::
  "string \<Rightarrow> (World \<Rightarrow> (exception + real) \<times> World) \<Rightarrow> real \<Rightarrow> real \<Rightarrow> SafetyMonitor \<Rightarrow> SafetyMonitor" where
  "addLimit name getValue minVal maxVal m =
     m\<lparr>sm_limits := sm_limits m @
        [\<lparr>sl_name = name, sl_getValue = getValue, sl_minValue = minVal, sl_maxValue = maxVal,
          sl_isActive = False\<rparr>]\<rparr>"

definition SafetyMonitor_addActuator :: "nat \<Rightarrow> SafetyMonitor \<Rightarrow> SafetyMonitor" where
  "SafetyMonitor_addActuator actuator m =
     m\<lparr>sm_controlledActuators := sm_controlledActuators m @ [actuator]\<rparr>"

definition isSystemSafe :: "SafetyMonitor \<Rightarrow> bool" where
  "isSystemSafe m = sm_systemSafe m"

definition getLastViolation :: "SafetyMonitor \<Rightarrow> string" where
  "getLastViolation m = sm_lastViolation m"

text \<open>
  Vocabulary for the properties of a cycle.  \<open>all_in_range ls w\<close> samples the limits
  \<open>ls\<close> in order, each in the store its predecessors left, and is the final store when
  every closure returned a value inside its limit's range.
\<close>

fun all_in_range :: "SafetyLimit list \<Rightarrow> World \<Rightarrow> World option" where
  "all_in_range [] w = Some w"
| "all_in_range (limit # rest) w =
     (case sl_getValue limit w of
        (Inl e, w1) \<Rightarrow> None
      | (Inr v, w1) \<Rightarrow>
          if v < sl_minValue limit \<or> v > sl_maxValue limit then None
          else all_in_range rest w1)"

definition cleared :: "SafetyLimit list \<Rightarrow> SafetyLimit list" where
  "cleared ls = map (\<lambda>limit. limit\<lparr>sl_isActive := False\<rparr>) ls"

text \<open>
  The objects \<^verbatim>\<open>main\<close> creates, after \<^verbatim>\<open>initialize\<close>: three sensors, and three
  actuators of which the vertical thruster has been commanded to \<open>40\<close>, the horizontal
  thruster to \<open>thrust\<close> and the gripper valve to \<open>30\<close>.
\<close>

definition main_world :: "real \<Rightarrow> World" where
  "main_world thrust =
     \<lparr>sensorObjs =
        [snd (sensor_initialize (Pressure (PressureSensor_new ''DepthSensor''))),
         snd (sensor_initialize (Temperature (TemperatureSensor_new ''WaterTemp''))),
         snd (sensor_initialize (IMU (IMUSensor_new ''IMU'')))],
      actuatorObjs =
        [snd (setCommand 40
           (snd (actuator_initialize (Motor (ThrusterMotor ''VerticalThruster1''))))),
         snd (setCommand thrust
           (snd (actuator_initialize (Motor (ThrusterMotor ''HorizontalThruster1''))))),
         snd (setCommand 30
           (snd (actuator_initialize (Valve (HydraulicValve_new ''GripperValve'')))))]\<rparr>"

text \<open>
  The two limits of \<^verbatim>\<open>main\<close>, and between them a limit on the command of the
  horizontal thruster.
\<close>

definition MaxDepth :: SafetyLimit where
  "MaxDepth = \<lparr>sl_name = ''MaxDepth'', sl_getValue = readSensor 0, sl_minValue = 0,
     sl_maxValue = 100, sl_isActive = False\<rparr>"

definition MaxThrust :: SafetyLimit where
  "MaxThrust = \<lparr>sl_name = ''MaxThrust'', sl_getValue = readCommand 1, sl_minValue = - 50,
     sl_maxValue = 50, sl_isActive = False\<rparr>"

definition MaxTemp :: SafetyLimit where
  "MaxTemp = \<lparr>sl_name = ''MaxTemp'', sl_getValue = readSensor 1, sl_minValue = - 5,
     sl_maxValue = 50, sl_isActive = False\<rparr>"

definition main_monitor :: SafetyMonitor where
  "main_monitor =
     SafetyMonitor_addActuator 2 (SafetyMonitor_addActuator 1 (SafetyMonitor_addActuator 0
       (addLimit ''MaxTemp'' (readSensor 1) (- 5) 50
         (addLimit ''MaxThrust'' (readCommand 1) (- 50) 50
           (addLimit ''MaxDepth'' (readSensor 0) 0 100 SafetyMonitor_new)))))"

text \<open>A closure whose value source is unavailable: it throws.\<close>

definition unavailable :: "World \<Rightarrow> (exception + real) \<times> World" where
  "unavailable w = (Inl (Exception ''sensor unavailable''), w)"

definition unavailable_monitor :: SafetyMonitor where
  "unavailable_monitor =
     SafetyMonitor_addActuator 0 (addLimit ''MaxDepth'' unavailable 0 100 SafetyMonitor_new)"

section \<open>Electronic control units (ecu.hpp)\<close>

datatype ECUType =
  MAIN_CONTROLLER | SENSOR_NODE | ACTUATOR_NODE | VFD_CONTROLLER | HYDRAULIC_CONTROLLER | CUSTOM

datatype ECUStatus = OFFLINE | INITIALIZING | ONLINE | FAULT | DEGRADED

text \<open>
  A \<^verbatim>\<open>system_clock::time_point\<close> is its count of nanoseconds since the epoch, the
  clock's period on the target, and \<^verbatim>\<open>system_clock::now()\<close> is an argument of the
  function that reads the clock.  \<^verbatim>\<open>communicationErrors_\<close> is an \<^verbatim>\<open>int\<close>, modelled
  without its upper bound.  The location, the link description and the device list of an
  ECU are only stored and reported, and are left out.
\<close>

record ECU =
  ecu_ecuID :: string
  ecu_name :: string
  ecu_type :: ECUType
  ecu_status :: ECUStatus
  ecu_lastCommunication :: int
  ecu_cpuUsagePercent :: real
  ecu_memoryUsagePercent :: real
  ecu_temperatureCelsius :: real
  ecu_communicationErrors :: int
  ecu_watchdogActive :: bool

definition ECU_new :: "int \<Rightarrow> string \<Rightarrow> string \<Rightarrow> ECUType \<Rightarrow> ECU" where
  "ECU_new now ecuID name type =
     \<lparr>ecu_ecuID = ecuID, ecu_name = name, ecu_type = type, ecu_status = OFFLINE,
      ecu_lastCommunication = now, ecu_cpuUsagePercent = 0, ecu_memoryUsagePercent = 0,
      ecu_temperatureCelsius = 0, ecu_communicationErrors = 0, ecu_watchdogActive = False\<rparr>"

text \<open>
  \<^verbatim>\<open>duration_cast<seconds>\<close> of a count of nanoseconds: integer division that
  truncates towards zero.
\<close>

definition duration_cast_seconds :: "int \<Rightarrow> int" where
  "duration_cast_seconds d =
     (if d < 0 then - ((- d) div 1000000000) else d div 1000000000)"

definition establishCommunication :: "ECU \<Rightarrow> bool" where
  "establishCommunication e = True"

definition updateHealthMetrics :: "ECU \<Rightarrow> ECU" where
  "updateHealthMetrics e =
     e\<lparr>ecu_cpuUsagePercent := 25, ecu_memoryUsagePercent := 40, ecu_temperatureCelsius := 45\<rparr>"

definition ECU_initialize :: "ECU \<Rightarrow> bool \<times> ECU" where
  "ECU_initialize e =
     (let e1 = e\<lparr>ecu_status := INITIALIZING, ecu_communicationErrors := 0\<rparr>;
          commSuccess = establishCommunication e1
      in if commSuccess then (True, e1\<lparr>ecu_status := ONLINE, ecu_watchdogActive := True\<rparr>)
         else (False, e1\<lparr>ecu_status := FAULT\<rparr>))"

definition ECU_update :: "int \<Rightarrow> ECU \<Rightarrow> bool \<times> ECU" where
  "ECU_update now e =
     (let elapsed = duration_cast_seconds (now - ecu_lastCommunication e);
          e1 = (if elapsed > 5 \<and> ecu_status e = ONLINE
                then e\<lparr>ecu_status := DEGRADED,
                       ecu_communicationErrors := ecu_communicationErrors e + 1\<rparr>
                else e);
          e2 = updateHealthMetrics e1
      in (ecu_status e2 = ONLINE \<or> ecu_status e2 = DEGRADED, e2))"

definition ECU_shutdown :: "ECU \<Rightarrow> bool \<times> ECU" where
  "ECU_shutdown e = (True, e\<lparr>ecu_status := OFFLINE, ecu_watchdogActive := False\<rparr>)"

definition updateCommunicationTimestamp :: "int \<Rightarrow> ECU \<Rightarrow> ECU" where
  "updateCommunicationTimestamp now e =
     (let e1 = e\<lparr>ecu_lastCommunication := now\<rparr>
      in if ecu_status e1 = DEGRADED then e1\<lparr>ecu_status := ONLINE\<rparr> else e1)"

definition getECUStatus :: "ECU \<Rightarrow> ECUStatus" where
  "getECUStatus e = ecu_status e"

definition getCommunicationErrors :: "ECU \<Rightarrow> int" where
  "getCommunicationErrors e = ecu_communicationErrors e"

text \<open>One second and one millisecond, in clock ticks.\<close>

definition seconds :: "int \<Rightarrow> int" where
  "seconds n = n * 1000000000"

definition milliseconds :: "int \<Rightarrow> int" where
  "milliseconds n = n * 1000000"

section \<open>ECU manager (ecu_mangr.hpp)\<close>

text \<open>
  \<^verbatim>\<open>std::map<std::string, std::shared_ptr<ECU>>\<close> is the list of its entries in the
  order the map iterates them, by ascending key.  An ECU is entered under its own id, so
  an object is in the map at most once and the entry holds the object itself; a caller that
  holds the pointer \<^verbatim>\<open>getECU\<close> returned changes the object through
  \<open>ecus_modify\<close>.  The logger, which the manager only writes to, is left out.
\<close>

type_synonym ecu_map = "(string \<times> ECU) list"

text \<open>\<^verbatim>\<open>ecus_[key] = ecu\<close>: assign to the entry of the key, inserting it when absent.\<close>

fun ecus_assign :: "string \<Rightarrow> ECU \<Rightarrow> ecu_map \<Rightarrow> ecu_map" where
  "ecus_assign key ecu [] = [(key, ecu)]"
| "ecus_assign key ecu ((k, e) # rest) =
     (if key = k then (key, ecu) # rest
      else if key < k then (key, ecu) # (k, e) # rest
      else (k, e) # ecus_assign key ecu rest)"

fun ecus_find :: "string \<Rightarrow> ecu_map \<Rightarrow> ECU option" where
  "ecus_find key [] = None"
| "ecus_find key ((k, e) # rest) = (if key = k then Some e else ecus_find key rest)"


record ECUManager =
  em_ecus :: ecu_map
  em_allECUsOnline :: bool
  em_systemName :: string

definition ECUManager_new :: "string \<Rightarrow> ECUManager" where
  "ECUManager_new systemName =
     \<lparr>em_ecus = [], em_allECUsOnline = False, em_systemName = systemName\<rparr>"

text \<open>The loop of \<^verbatim>\<open>updateSystemStatus\<close>, which leaves at the first ECU not online.\<close>

fun updateSystemStatus_loop :: "ecu_map \<Rightarrow> bool \<Rightarrow> bool" where
  "updateSystemStatus_loop [] allOnline = allOnline"
| "updateSystemStatus_loop ((k, e) # rest) allOnline =
     (if getECUStatus e \<noteq> ONLINE then False else updateSystemStatus_loop rest allOnline)"

definition updateSystemStatus :: "ECUManager \<Rightarrow> ECUManager" where
  "updateSystemStatus m = m\<lparr>em_allECUsOnline := updateSystemStatus_loop (em_ecus m) True\<rparr>"

fun initialize_loop :: "ecu_map \<Rightarrow> bool \<Rightarrow> bool \<times> ecu_map" where
  "initialize_loop [] success = (success, [])"
| "initialize_loop ((k, e) # rest) success =
     (case ECU_initialize e of
        (ok, e') \<Rightarrow>
          (case initialize_loop rest (if \<not> ok then False else success) of
             (r, rest') \<Rightarrow> (r, (k, e') # rest')))"

definition ECUManager_initialize :: "ECUManager \<Rightarrow> bool \<times> ECUManager" where
  "ECUManager_initialize m =
     (case initialize_loop (em_ecus m) True of
        (success, ecus') \<Rightarrow> (success, updateSystemStatus (m\<lparr>em_ecus := ecus'\<rparr>)))"

text \<open>
  Every ECU reads the clock in its own \<^verbatim>\<open>update\<close>; the readings of one pass are
  taken to be the same instant \<open>now\<close>.
\<close>

fun update_loop_ecus :: "int \<Rightarrow> ecu_map \<Rightarrow> bool \<Rightarrow> bool \<times> ecu_map" where
  "update_loop_ecus now [] allOK = (allOK, [])"
| "update_loop_ecus now ((k, e) # rest) allOK =
     (case ECU_update now e of
        (ok, e') \<Rightarrow>
          (case update_loop_ecus now rest (if \<not> ok then False else allOK) of
             (r, rest') \<Rightarrow> (r, (k, e') # rest')))"

definition ECUManager_update :: "int \<Rightarrow> ECUManager \<Rightarrow> bool \<times> ECUManager" where
  "ECUManager_update now m =
     (case update_loop_ecus now (em_ecus m) True of
        (allOK, ecus') \<Rightarrow> (allOK, updateSystemStatus (m\<lparr>em_ecus := ecus'\<rparr>)))"

definition ECUManager_shutdown :: "ECUManager \<Rightarrow> bool \<times> ECUManager" where
  "ECUManager_shutdown m =
     (True, m\<lparr>em_ecus := map (\<lambda>(k, e). (k, snd (ECU_shutdown e))) (em_ecus m),
              em_allECUsOnline := False\<rparr>)"

definition addECU :: "ECU \<Rightarrow> ECUManager \<Rightarrow> ECUManager" where
  "addECU ecu m = m\<lparr>em_ecus := ecus_assign (ecu_ecuID ecu) ecu (em_ecus m)\<rparr>"

definition getECU :: "string \<Rightarrow> ECUManager \<Rightarrow> ECU option" where
  "getECU ecuID m = ecus_find ecuID (em_ecus m)"

definition getECUsByType :: "ECUType \<Rightarrow> ECUManager \<Rightarrow> ECU list" where
  "getECUsByType type m = filter (\<lambda>e. ecu_type e = type) (map snd (em_ecus m))"

definition areAllECUsOnline :: "ECUManager \<Rightarrow> bool" where
  "areAllECUsOnline m = em_allECUsOnline m"

definition getTotalECUCount :: "ECUManager \<Rightarrow> nat" where
  "getTotalECUCount m = length (em_ecus m)"

definition getOnlineECUCount :: "ECUManager \<Rightarrow> nat" where
  "getOnlineECUCount m = length (filter (\<lambda>(k, e). getECUStatus e = ONLINE) (em_ecus m))"

text \<open>Two ECUs of the topology \<^verbatim>\<open>setupECUs\<close> registers, created at time \<open>0\<close>.\<close>

definition ECU01 :: ECU where
  "ECU01 = ECU_new 0 ''ECU01'' ''Raspberry Pi 4B Main Controller'' MAIN_CONTROLLER"

definition ECU02 :: ECU where
  "ECU02 = ECU_new 0 ''ECU02'' ''Teensy 4.0 Sensor Node'' SENSOR_NODE"

section \<open>Control system (controlSystem.hpp)\<close>



















section \<open>Properties of the actuators\<close>

lemma setCommand_rejected:
  "hasInterlock a \<or> \<not> isEnabled a \<Longrightarrow> setCommand v a = (False, a)"
  by (cases a) (auto simp add: MotorController_setCommand_def HydraulicValve_setCommand_def)

text \<open>
  Claim C3, as the code has it: for every actuator that is not interlocked and, being a
  motor controller, is enabled, \<^verbatim>\<open>getCommand()\<close> after \<^verbatim>\<open>setCommand(v)\<close> is
  \<open>v\<close> clamped to the actuator's limits, which are \<open>[-100, 100]\<close> for a
  \<^verbatim>\<open>ThrusterMotor\<close> and \<open>[0, 100]\<close> for a \<^verbatim>\<open>HydraulicValve\<close>.
\<close>

theorem setCommand_clamps_when_accepted:
  "(\<not> hasInterlock a \<and> isEnabled a \<longrightarrow>
      getCommand (snd (setCommand v a)) = std_clamp v (minLimit a) (maxLimit a)) \<and>
   minLimit (Motor (ThrusterMotor n)) = - 100 \<and> maxLimit (Motor (ThrusterMotor n)) = 100 \<and>
   minLimit (Valve h) = 0 \<and> maxLimit (Valve h) = 100 \<and> isEnabled (Valve h)"
  by (cases a)
     (simp_all add: MotorController_setCommand_def HydraulicValve_setCommand_def
        ThrusterMotor_def MotorController_new_def)

theorem setCommand_clamps_when_accepted_witness:
  "\<not> hasInterlock (Motor (snd (MotorController_initialize (ThrusterMotor ''VerticalThruster1'')))) \<and>
   isEnabled (Motor (snd (MotorController_initialize (ThrusterMotor ''VerticalThruster1'')))) \<and>
   getCommand (snd (setCommand 150
      (Motor (snd (MotorController_initialize (ThrusterMotor ''VerticalThruster1'')))))) = 100"
  using setCommand_clamps_when_accepted
    [of "Motor (snd (MotorController_initialize (ThrusterMotor ''VerticalThruster1'')))" 150]
  by (simp add: MotorController_initialize_def ThrusterMotor_def MotorController_new_def
        std_clamp_def)

text \<open>
  Claim C3 as the specification states it asks only for the actuator not to be
  interlocked.  A thruster that has been constructed but not initialised is not interlocked,
  yet it rejects the command \<open>50\<close> and keeps its command value \<open>0\<close>.
\<close>

theorem setCommand_disabled_counterexample:
  "\<not> hasInterlock (Motor (ThrusterMotor ''VerticalThruster1'')) \<and>
   getCommand (snd (setCommand 50 (Motor (ThrusterMotor ''VerticalThruster1'')))) = 0 \<and>
   std_clamp 50 (minLimit (Motor (ThrusterMotor ''VerticalThruster1'')))
                (maxLimit (Motor (ThrusterMotor ''VerticalThruster1''))) = 50"
  by (simp add: MotorController_setCommand_def ThrusterMotor_def MotorController_new_def
        std_clamp_def)

section \<open>Properties of double arithmetic\<close>

lemma binary64_zero: "binary64 0 = 0"
  by (simp add: binary64_def round_half_even_def)

lemma dadd_zero: "dadd 0 0 = 0"
  by (simp add: dadd_def binary64_zero)

lemma ddiv_zero: "ddiv 0 y = 0"
  by (simp add: ddiv_def binary64_zero)

lemma foldl_dadd_zeros: "foldl dadd 0 (replicate n 0) = 0"
  by (induction n) (simp_all add: dadd_zero)

text \<open>
  Rounding at work: the double nearest to one tenth, and the mean of ten copies of it as
  \<^verbatim>\<open>readValue\<close> computes it, which is the double just below.
\<close>

lemma binary64_tenth: "binary64 (1 / 10) = 3602879701896397 / 36028797018963968"
  by code_simp

lemma mean_of_ten_tenths:
  "ddiv (foldl dadd 0 (replicate 10 (3602879701896397 / 36028797018963968))) 10
     = 7205759403792793 / 72057594037927936"
  by code_simp

section \<open>Properties of the pressure sensor's moving average\<close>

lemma readValue_history:
  "ps_historyBuffer (snd (PressureSensor_readValue s)) =
     (if BUFFER_SIZE \<le> length (ps_historyBuffer s)
      then tl (ps_historyBuffer s) else ps_historyBuffer s)
       @ [dadd (ps_currentValue s) (ps_calibrationOffset s)]"
  by (simp add: PressureSensor_readValue_def Let_def)

lemma readValue_mean:
  "fst (PressureSensor_readValue s) =
     ddiv (foldl dadd 0 (ps_historyBuffer (snd (PressureSensor_readValue s))))
       (real (length (ps_historyBuffer (snd (PressureSensor_readValue s)))))"
  by (simp add: PressureSensor_readValue_def Let_def)

lemma readValue_keeps:
  "ps_currentValue (snd (PressureSensor_readValue s)) = ps_currentValue s"
  "ps_calibrationOffset (snd (PressureSensor_readValue s)) = ps_calibrationOffset s"
  "ps_name (snd (PressureSensor_readValue s)) = ps_name s"
  "ps_healthy (snd (PressureSensor_readValue s)) = ps_healthy s"
  by (simp_all add: PressureSensor_readValue_def Let_def)

lemma readValue_bound:
  "length (ps_historyBuffer s) \<le> BUFFER_SIZE \<Longrightarrow>
   length (ps_historyBuffer (snd (PressureSensor_readValue s))) \<le> BUFFER_SIZE"
  by (simp add: readValue_history BUFFER_SIZE_def)

lemma tl_replicate_snoc: "0 < n \<Longrightarrow> tl (replicate n x) @ [x] = replicate n x"
  by (cases n) (simp_all add: replicate_append_same)

lemma all_zero_readValue:
  assumes "all_zero (Pressure s)"
  shows "fst (PressureSensor_readValue s) = 0"
    and "all_zero (Pressure (snd (PressureSensor_readValue s)))"
    and "length (ps_historyBuffer s) < BUFFER_SIZE \<Longrightarrow>
         ps_historyBuffer (snd (PressureSensor_readValue s)) =
           replicate (Suc (length (ps_historyBuffer s))) 0"
    and "length (ps_historyBuffer s) = BUFFER_SIZE \<Longrightarrow> snd (PressureSensor_readValue s) = s"
proof -
  let ?h = "ps_historyBuffer s"
  let ?h' = "ps_historyBuffer (snd (PressureSensor_readValue s))"
  from assms have z: "ps_currentValue s = 0" "ps_calibrationOffset s = 0"
    and h: "?h = replicate (length ?h) 0" and len: "length ?h \<le> BUFFER_SIZE"
    by simp_all
  have less: "length ?h < BUFFER_SIZE \<Longrightarrow> ?h' = replicate (Suc (length ?h)) 0"
  proof -
    assume "length ?h < BUFFER_SIZE"
    then have "?h' = ?h @ [0]" by (simp add: readValue_history z dadd_zero)
    also have "\<dots> = replicate (length ?h) 0 @ [0]" using h by simp
    finally show ?thesis by (simp add: replicate_append_same)
  qed
  have full: "length ?h = BUFFER_SIZE \<Longrightarrow> ?h' = ?h"
  proof -
    assume f: "length ?h = BUFFER_SIZE"
    then have "?h' = tl ?h @ [0]" by (simp add: readValue_history z dadd_zero)
    also have "\<dots> = tl (replicate (length ?h) 0) @ [0]" using h by simp
    also have "\<dots> = replicate (length ?h) 0"
      using f by (intro tl_replicate_snoc) (simp add: BUFFER_SIZE_def)
    finally show ?thesis using h by simp
  qed
  have zeros: "?h' = replicate (length ?h') 0" and bound: "length ?h' \<le> BUFFER_SIZE"
    using less full h len by (cases "length ?h < BUFFER_SIZE"; force)+
  show "all_zero (Pressure (snd (PressureSensor_readValue s)))"
    using zeros bound z by (simp add: readValue_keeps)
  have "foldl dadd 0 ?h' = 0" using zeros foldl_dadd_zeros [of "length ?h'"] by simp
  then show "fst (PressureSensor_readValue s) = 0" by (simp add: readValue_mean ddiv_zero)
  show "length ?h < BUFFER_SIZE \<Longrightarrow> ?h' = replicate (Suc (length ?h)) 0" by (rule less)
  show "length ?h = BUFFER_SIZE \<Longrightarrow> snd (PressureSensor_readValue s) = s"
  proof -
    assume "length ?h = BUFFER_SIZE"
    then have "?h' = ?h" by (rule full)
    then show ?thesis by (simp add: PressureSensor_readValue_def Let_def)
  qed
qed

lemma all_zero_reads_zero:
  "all_zero s \<Longrightarrow> fst (readValue s) = 0 \<and> all_zero (snd (readValue s))"
  using all_zero_readValue(1,2) by (cases s) simp_all

lemma all_zero_kept:
  "all_zero s \<Longrightarrow> all_zero (snd (sensor_initialize s))"
  "all_zero s \<Longrightarrow> all_zero (snd (sensor_update s))"
  "all_zero s \<Longrightarrow> all_zero (snd (sensor_shutdown s))"
  "all_zero s \<Longrightarrow> all_zero (snd (calibrate s))"
  by (cases s; simp add: PressureSensor_calibrate_def)+

lemma sensor_reachable_all_zero: "sensor_reachable s \<Longrightarrow> all_zero s"
proof (induction rule: sensor_reachable.induct)
  case (new_pressure name)
  show ?case by (simp add: PressureSensor_new_def)
next
  case (new_temperature name)
  show ?case by (simp add: TemperatureSensor_new_def)
next
  case (new_imu name)
  show ?case by (simp add: IMUSensor_new_def)
next
  case (after_readValue s)
  then show ?case by (simp add: all_zero_reads_zero)
qed (simp_all add: all_zero_kept)


lemma readValue_Pressure:
  "snd (readValue (Pressure s)) = Pressure (snd (PressureSensor_readValue s))"
  "fst (readValue (Pressure s)) = fst (PressureSensor_readValue s)"
  by simp_all

lemma reachable_after_read:
  "sensor_reachable (Pressure s) \<Longrightarrow> sensor_reachable (Pressure (snd (PressureSensor_readValue s)))"
  using after_readValue [of "Pressure s"] by simp

lemma reachable_read_twice:
  assumes "sensor_reachable (Pressure s)"
  shows "fst (PressureSensor_readValue (snd (PressureSensor_readValue s))) =
         fst (PressureSensor_readValue s)"
proof -
  have "all_zero (Pressure s)" using assms by (rule sensor_reachable_all_zero)
  moreover have "all_zero (Pressure (snd (PressureSensor_readValue s)))"
    using reachable_after_read [OF assms] by (rule sensor_reachable_all_zero)
  ultimately show ?thesis by (simp add: all_zero_readValue(1))
qed

lemma new_sensor_reachable:
  "sensor_reachable (Pressure ((PressureSensor_new name)\<lparr>ps_healthy := True\<rparr>))"
  using after_initialize [OF new_pressure [of name]] by simp

lemma reachable_after_reads:
  "sensor_reachable (Pressure s) \<Longrightarrow>
   sensor_reachable (Pressure (((\<lambda>s. snd (PressureSensor_readValue s)) ^^ n) s))"
  by (induction n) (simp_all add: reachable_after_read)

lemma reads_fill_buffer:
  "all_zero (Pressure s) \<Longrightarrow> length (ps_historyBuffer s) + n \<le> BUFFER_SIZE \<Longrightarrow>
   all_zero (Pressure (((\<lambda>s. snd (PressureSensor_readValue s)) ^^ n) s)) \<and>
   length (ps_historyBuffer (((\<lambda>s. snd (PressureSensor_readValue s)) ^^ n) s)) =
     length (ps_historyBuffer s) + n"
proof (induction n)
  case 0
  then show ?case by simp
next
  case (Suc n)
  let ?t = "((\<lambda>s. snd (PressureSensor_readValue s)) ^^ n) s"
  from Suc.prems(2) have "length (ps_historyBuffer s) + n \<le> BUFFER_SIZE" by simp
  from Suc.IH [OF Suc.prems(1) this] have z: "all_zero (Pressure ?t)"
    and l: "length (ps_historyBuffer ?t) = length (ps_historyBuffer s) + n"
    by blast+
  from l Suc.prems(2) have "length (ps_historyBuffer ?t) < BUFFER_SIZE" by simp
  from all_zero_readValue(3) [OF z this]
  have "length (ps_historyBuffer (snd (PressureSensor_readValue ?t))) =
      Suc (length (ps_historyBuffer ?t))"
    by simp
  with l all_zero_readValue(2) [OF z] show ?case by (simp del: all_zero.simps)
qed

text \<open>
  Claim C10, as the code has it.  Every call of \<^verbatim>\<open>PressureSensor::readValue\<close> drops
  the oldest entry of a buffer that already holds ten, appends the sample
  \<open>currentValue + calibrationOffset\<close>, and returns the mean of the buffer as double
  arithmetic computes it: the running sum from \<open>0.0\<close>, divided by the number of entries.
  The buffer, empty at construction, never grows beyond ten entries, and the call leaves
  \<open>currentValue\<close> and the offset alone.  On a sensor the code can produce the sample is
  zero and every call returns zero, so two calls in a row return the same value; what a
  call changes is the buffer, until it holds ten entries, after which the call changes
  nothing.
\<close>

theorem PressureSensor_readValue_moving_average:
  "ps_historyBuffer (snd (PressureSensor_readValue s)) =
     (if BUFFER_SIZE \<le> length (ps_historyBuffer s)
      then tl (ps_historyBuffer s) else ps_historyBuffer s)
       @ [dadd (ps_currentValue s) (ps_calibrationOffset s)] \<and>
   fst (PressureSensor_readValue s) =
     ddiv (foldl dadd 0 (ps_historyBuffer (snd (PressureSensor_readValue s))))
       (real (length (ps_historyBuffer (snd (PressureSensor_readValue s))))) \<and>
   ps_historyBuffer (PressureSensor_new name) = [] \<and>
   (length (ps_historyBuffer s) \<le> BUFFER_SIZE \<longrightarrow>
      length (ps_historyBuffer (snd (PressureSensor_readValue s))) \<le> BUFFER_SIZE) \<and>
   ps_currentValue (snd (PressureSensor_readValue s)) = ps_currentValue s \<and>
   ps_calibrationOffset (snd (PressureSensor_readValue s)) = ps_calibrationOffset s \<and>
   (sensor_reachable (Pressure s) \<longrightarrow>
      sensor_reachable (Pressure (snd (PressureSensor_readValue s))) \<and>
      length (ps_historyBuffer s) \<le> BUFFER_SIZE \<and>
      dadd (ps_currentValue s) (ps_calibrationOffset s) = 0 \<and>
      fst (PressureSensor_readValue s) = 0 \<and>
      fst (PressureSensor_readValue (snd (PressureSensor_readValue s))) =
        fst (PressureSensor_readValue s) \<and>
      (length (ps_historyBuffer s) < BUFFER_SIZE \<longrightarrow>
         ps_historyBuffer (snd (PressureSensor_readValue s)) =
           replicate (Suc (length (ps_historyBuffer s))) 0 \<and>
         snd (PressureSensor_readValue s) \<noteq> s) \<and>
      (length (ps_historyBuffer s) = BUFFER_SIZE \<longrightarrow> snd (PressureSensor_readValue s) = s))"
proof -
  have reach: "sensor_reachable (Pressure s) \<longrightarrow>
      sensor_reachable (Pressure (snd (PressureSensor_readValue s))) \<and>
      length (ps_historyBuffer s) \<le> BUFFER_SIZE \<and>
      dadd (ps_currentValue s) (ps_calibrationOffset s) = 0 \<and>
      fst (PressureSensor_readValue s) = 0 \<and>
      fst (PressureSensor_readValue (snd (PressureSensor_readValue s))) =
        fst (PressureSensor_readValue s) \<and>
      (length (ps_historyBuffer s) < BUFFER_SIZE \<longrightarrow>
         ps_historyBuffer (snd (PressureSensor_readValue s)) =
           replicate (Suc (length (ps_historyBuffer s))) 0 \<and>
         snd (PressureSensor_readValue s) \<noteq> s) \<and>
      (length (ps_historyBuffer s) = BUFFER_SIZE \<longrightarrow> snd (PressureSensor_readValue s) = s)"
  proof
    assume r: "sensor_reachable (Pressure s)"
    then have z: "all_zero (Pressure s)" by (rule sensor_reachable_all_zero)
    have grow: "length (ps_historyBuffer s) < BUFFER_SIZE \<longrightarrow>
        ps_historyBuffer (snd (PressureSensor_readValue s)) =
          replicate (Suc (length (ps_historyBuffer s))) 0 \<and>
        snd (PressureSensor_readValue s) \<noteq> s"
    proof
      assume "length (ps_historyBuffer s) < BUFFER_SIZE"
      then have h: "ps_historyBuffer (snd (PressureSensor_readValue s)) =
          replicate (Suc (length (ps_historyBuffer s))) 0"
        by (rule all_zero_readValue(3) [OF z])
      then have "length (ps_historyBuffer (snd (PressureSensor_readValue s))) \<noteq>
          length (ps_historyBuffer s)"
        by simp
      then have "snd (PressureSensor_readValue s) \<noteq> s" by auto
      with h show "ps_historyBuffer (snd (PressureSensor_readValue s)) =
          replicate (Suc (length (ps_historyBuffer s))) 0 \<and>
        snd (PressureSensor_readValue s) \<noteq> s" by simp
    qed
    from z have "ps_currentValue s = 0" "ps_calibrationOffset s = 0"
      "length (ps_historyBuffer s) \<le> BUFFER_SIZE" by simp_all
    then show "sensor_reachable (Pressure (snd (PressureSensor_readValue s))) \<and>
      length (ps_historyBuffer s) \<le> BUFFER_SIZE \<and>
      dadd (ps_currentValue s) (ps_calibrationOffset s) = 0 \<and>
      fst (PressureSensor_readValue s) = 0 \<and>
      fst (PressureSensor_readValue (snd (PressureSensor_readValue s))) =
        fst (PressureSensor_readValue s) \<and>
      (length (ps_historyBuffer s) < BUFFER_SIZE \<longrightarrow>
         ps_historyBuffer (snd (PressureSensor_readValue s)) =
           replicate (Suc (length (ps_historyBuffer s))) 0 \<and>
         snd (PressureSensor_readValue s) \<noteq> s) \<and>
      (length (ps_historyBuffer s) = BUFFER_SIZE \<longrightarrow> snd (PressureSensor_readValue s) = s)"
      using reachable_after_read [OF r] reachable_read_twice [OF r] grow
        all_zero_readValue(1,4) [OF z]
      by (simp add: dadd_zero)
  qed
  have new: "ps_historyBuffer (PressureSensor_new name) = []"
    by (simp add: PressureSensor_new_def)
  have bound: "length (ps_historyBuffer s) \<le> BUFFER_SIZE \<longrightarrow>
      length (ps_historyBuffer (snd (PressureSensor_readValue s))) \<le> BUFFER_SIZE"
    using readValue_bound by blast
  show ?thesis
    by (intro conjI; (rule readValue_history readValue_mean new bound readValue_keeps reach))
qed

theorem PressureSensor_readValue_moving_average_witness:
  "length (ps_historyBuffer ((PressureSensor_new ''DepthSensor'')\<lparr>ps_healthy := True\<rparr>))
     \<le> BUFFER_SIZE \<and>
   sensor_reachable (Pressure ((PressureSensor_new ''DepthSensor'')\<lparr>ps_healthy := True\<rparr>)) \<and>
   length (ps_historyBuffer ((PressureSensor_new ''DepthSensor'')\<lparr>ps_healthy := True\<rparr>))
     < BUFFER_SIZE \<and>
   fst (PressureSensor_readValue ((PressureSensor_new ''DepthSensor'')\<lparr>ps_healthy := True\<rparr>))
     = 0 \<and>
   ps_historyBuffer (snd (PressureSensor_readValue
     ((PressureSensor_new ''DepthSensor'')\<lparr>ps_healthy := True\<rparr>))) = [0] \<and>
   snd (PressureSensor_readValue ((PressureSensor_new ''DepthSensor'')\<lparr>ps_healthy := True\<rparr>))
     \<noteq> (PressureSensor_new ''DepthSensor'')\<lparr>ps_healthy := True\<rparr> \<and>
   sensor_reachable (Pressure (((\<lambda>s. snd (PressureSensor_readValue s)) ^^ 10)
     (PressureSensor_new ''DepthSensor''))) \<and>
   length (ps_historyBuffer (((\<lambda>s. snd (PressureSensor_readValue s)) ^^ 10)
     (PressureSensor_new ''DepthSensor''))) = BUFFER_SIZE \<and>
   snd (PressureSensor_readValue (((\<lambda>s. snd (PressureSensor_readValue s)) ^^ 10)
     (PressureSensor_new ''DepthSensor''))) =
     ((\<lambda>s. snd (PressureSensor_readValue s)) ^^ 10) (PressureSensor_new ''DepthSensor'')"
proof -
  let ?s = "(PressureSensor_new ''DepthSensor'')\<lparr>ps_healthy := True\<rparr>"
  have r: "sensor_reachable (Pressure ?s)" by (rule new_sensor_reachable)
  have e: "ps_historyBuffer ?s = []" by (simp add: PressureSensor_new_def)
  have l: "length (ps_historyBuffer ?s) < BUFFER_SIZE" by (simp add: e BUFFER_SIZE_def)
  have l': "length (ps_historyBuffer ?s) \<le> BUFFER_SIZE" by (simp add: e)
  have first: "fst (PressureSensor_readValue ?s) = 0 \<and>
      ps_historyBuffer (snd (PressureSensor_readValue ?s)) =
        replicate (Suc (length (ps_historyBuffer ?s))) 0 \<and>
      snd (PressureSensor_readValue ?s) \<noteq> ?s"
    using PressureSensor_readValue_moving_average [of ?s "''DepthSensor''"] r l by blast
  then have zero: "fst (PressureSensor_readValue ?s) = 0"
    and differs: "snd (PressureSensor_readValue ?s) \<noteq> ?s"
    by blast+
  from first have one: "ps_historyBuffer (snd (PressureSensor_readValue ?s)) = [0]"
    by (simp add: e)
  let ?t = "((\<lambda>s. snd (PressureSensor_readValue s)) ^^ 10) (PressureSensor_new ''DepthSensor'')"
  have r10: "sensor_reachable (Pressure ?t)"
    by (rule reachable_after_reads [OF new_pressure])
  have "all_zero (Pressure (PressureSensor_new ''DepthSensor''))"
    by (simp add: PressureSensor_new_def)
  moreover have "length (ps_historyBuffer (PressureSensor_new ''DepthSensor'')) + 10
      \<le> BUFFER_SIZE"
    by (simp add: PressureSensor_new_def BUFFER_SIZE_def)
  ultimately have "length (ps_historyBuffer ?t) =
      length (ps_historyBuffer (PressureSensor_new ''DepthSensor'')) + 10"
    using reads_fill_buffer by blast
  then have l10: "length (ps_historyBuffer ?t) = BUFFER_SIZE"
    by (simp add: PressureSensor_new_def BUFFER_SIZE_def)
  from PressureSensor_readValue_moving_average [of ?t "''DepthSensor''"] r10 l10
  have same: "snd (PressureSensor_readValue ?t) = ?t" by blast
  show ?thesis
    by (intro conjI; (rule l' r l zero one differs r10 l10 same))
qed

text \<open>
  Claim C10 as stated has consecutive calls return different results while the buffer
  fills.  On no sensor the code can produce do two calls in a row return different values:
  a new sensor returns zero twice, its buffer holding one and then two entries of ten.
\<close>

theorem PressureSensor_readValue_results_differ_counterexample:
  "\<not> (\<exists>s. sensor_reachable (Pressure s) \<and>
          fst (PressureSensor_readValue (snd (PressureSensor_readValue s)))
            \<noteq> fst (PressureSensor_readValue s)) \<and>
   sensor_reachable (Pressure (PressureSensor_new ''DepthSensor'')) \<and>
   fst (PressureSensor_readValue (PressureSensor_new ''DepthSensor'')) = 0 \<and>
   fst (PressureSensor_readValue
     (snd (PressureSensor_readValue (PressureSensor_new ''DepthSensor'')))) = 0 \<and>
   ps_historyBuffer (snd (PressureSensor_readValue
     (snd (PressureSensor_readValue (PressureSensor_new ''DepthSensor''))))) = [0, 0]"
proof -
  have "\<not> (\<exists>s. sensor_reachable (Pressure s) \<and>
          fst (PressureSensor_readValue (snd (PressureSensor_readValue s)))
            \<noteq> fst (PressureSensor_readValue s))"
    using reachable_read_twice by blast
  moreover have "sensor_reachable (Pressure (PressureSensor_new ''DepthSensor''))"
    by (rule new_pressure)
  moreover have "fst (PressureSensor_readValue (PressureSensor_new ''DepthSensor'')) = 0 \<and>
     fst (PressureSensor_readValue
       (snd (PressureSensor_readValue (PressureSensor_new ''DepthSensor'')))) = 0 \<and>
     ps_historyBuffer (snd (PressureSensor_readValue
       (snd (PressureSensor_readValue (PressureSensor_new ''DepthSensor''))))) = [0, 0]"
    by (simp add: PressureSensor_readValue_def PressureSensor_new_def BUFFER_SIZE_def
          dadd_zero ddiv_zero)
  ultimately show ?thesis by blast
qed

section \<open>Properties of the safety monitor\<close>

lemma setCommand_zero_twice:
  "snd (setCommand 0 (snd (setCommand 0 a))) = snd (setCommand 0 a)"
  by (cases a) (simp_all add: MotorController_setCommand_def HydraulicValve_setCommand_def)

lemma trigger_interlocks_sensors: "sensorObjs (trigger_interlocks hs w) = sensorObjs w"
  by (induction hs arbitrary: w) (simp_all add: setCommand_at_def)

lemma trigger_interlocks_length:
  "length (actuatorObjs (trigger_interlocks hs w)) = length (actuatorObjs w)"
  by (induction hs arbitrary: w) (simp_all add: setCommand_at_def)

lemma trigger_interlocks_nth:
  "h < length (actuatorObjs w) \<Longrightarrow>
   actuatorObjs (trigger_interlocks hs w) ! h =
     (if h \<in> set hs then snd (setCommand 0 (actuatorObjs w ! h)) else actuatorObjs w ! h)"
proof (induction hs arbitrary: w)
  case Nil
  show ?case by simp
next
  case (Cons k hs)
  have len: "h < length (actuatorObjs (setCommand_at k 0 w))"
    using Cons.prems by (simp add: setCommand_at_def)
  show ?case
    using Cons.IH [OF len] Cons.prems
    by (cases "k = h") (auto simp add: setCommand_at_def setCommand_zero_twice)
qed

lemma update_loop_violation:
  assumes "all_in_range pre w = Some w1"
    and "sl_getValue l w1 = (Inr v, w2)"
    and "v < sl_minValue l \<or> v > sl_maxValue l"
  shows "update_loop fmt (pre @ l # post) m w =
     (None, cleared pre @ l\<lparr>sl_isActive := True\<rparr> # post,
      m\<lparr>sm_systemSafe := False, sm_lastViolation := sl_name l @ '' out of range: '' @ fmt v\<rparr>,
      trigger_interlocks (sm_controlledActuators m) w2)"
  using assms
proof (induction pre arbitrary: w)
  case Nil
  then show ?case by (auto simp add: cleared_def)
next
  case (Cons a pre)
  then show ?case
    by (auto simp add: cleared_def split: prod.splits sum.splits if_splits)
qed

lemma update_loop_safe:
  assumes "all_in_range ls w = Some w1"
  shows "update_loop fmt ls m w = (None, cleared ls, m, w1)"
  using assms
proof (induction ls arbitrary: w)
  case Nil
  then show ?case by (simp add: cleared_def)
next
  case (Cons a ls)
  then show ?case
    by (auto simp add: cleared_def split: prod.splits sum.splits if_splits)
qed

lemma update_loop_throw:
  assumes "all_in_range pre w = Some w1"
    and "sl_getValue l w1 = (Inl e, w2)"
  shows "update_loop fmt (pre @ l # post) m w = (Some e, cleared pre @ l # post, m, w2)"
  using assms
proof (induction pre arbitrary: w)
  case Nil
  then show ?case by (auto simp add: cleared_def)
next
  case (Cons a pre)
  then show ?case
    by (auto simp add: cleared_def split: prod.splits sum.splits if_splits)
qed

lemma update_violation:
  assumes "sm_limits m = pre @ l # post"
    and "all_in_range pre w = Some w1"
    and "sl_getValue l w1 = (Inr v, w2)"
    and "v < sl_minValue l \<or> v > sl_maxValue l"
  shows "SafetyMonitor_update fmt m w =
     (Inr True,
      m\<lparr>sm_limits := cleared pre @ l\<lparr>sl_isActive := True\<rparr> # post, sm_systemSafe := False,
        sm_lastViolation := sl_name l @ '' out of range: '' @ fmt v\<rparr>,
      trigger_interlocks (sm_controlledActuators m) w2)"
  by (simp add: SafetyMonitor_update_def assms(1) update_loop_violation [OF assms(2-4)])

lemma update_safe:
  assumes "all_in_range (sm_limits m) w = Some w1"
  shows "SafetyMonitor_update fmt m w =
     (Inr True, m\<lparr>sm_limits := cleared (sm_limits m), sm_systemSafe := True\<rparr>, w1)"
  by (simp add: SafetyMonitor_update_def update_loop_safe [OF assms])

lemma update_throw:
  assumes "sm_limits m = pre @ l # post"
    and "all_in_range pre w = Some w1"
    and "sl_getValue l w1 = (Inl e, w2)"
  shows "SafetyMonitor_update fmt m w =
     (Inl e, m\<lparr>sm_limits := cleared pre @ l # post, sm_systemSafe := True\<rparr>, w2)"
  by (simp add: SafetyMonitor_update_def assms(1) update_loop_throw [OF assms(2,3)])

lemma setCommand_zero_accepted:
  assumes "\<not> hasInterlock a" and "isEnabled a"
  shows "getCommand (snd (setCommand 0 a)) = std_clamp 0 (minLimit a) (maxLimit a)"
  using assms
  by (cases a) (simp_all add: MotorController_setCommand_def HydraulicValve_setCommand_def)

lemma std_clamp_zero: "lo \<le> 0 \<Longrightarrow> 0 \<le> hi \<Longrightarrow> std_clamp 0 lo hi = 0"
  by (simp add: std_clamp_def)

lemma limits_kept:
  "minLimit (snd (setCommand v a)) = minLimit a"
  "maxLimit (snd (setCommand v a)) = maxLimit a"
  "minLimit (snd (actuator_initialize a)) = minLimit a"
  "maxLimit (snd (actuator_initialize a)) = maxLimit a"
  "minLimit (snd (actuator_update a)) = minLimit a"
  "maxLimit (snd (actuator_update a)) = maxLimit a"
  "minLimit (snd (actuator_shutdown a)) = minLimit a"
  "maxLimit (snd (actuator_shutdown a)) = maxLimit a"
  "minLimit (setInterlock b a) = minLimit a"
  "maxLimit (setInterlock b a) = maxLimit a"
  by (cases a; simp add: MotorController_setCommand_def HydraulicValve_setCommand_def
        MotorController_initialize_def HydraulicValve_initialize_def
        MotorController_update_def HydraulicValve_update_def
        MotorController_shutdown_def HydraulicValve_shutdown_def)+

lemma trigger_interlocks_accepted:
  assumes "h < length (actuatorObjs u)" and "h \<in> set hs"
    and "\<not> hasInterlock (actuatorObjs u ! h)" and "isEnabled (actuatorObjs u ! h)"
  shows "actuatorObjs (trigger_interlocks hs u) ! h = snd (setCommand 0 (actuatorObjs u ! h))"
    and "getCommand (actuatorObjs (trigger_interlocks hs u) ! h) =
           std_clamp 0 (minLimit (actuatorObjs u ! h)) (maxLimit (actuatorObjs u ! h))"
    and "minLimit (actuatorObjs u ! h) \<le> 0 \<and> 0 \<le> maxLimit (actuatorObjs u ! h) \<longrightarrow>
           getCommand (actuatorObjs (trigger_interlocks hs u) ! h) = 0"
  using assms
  by (simp_all add: trigger_interlocks_nth setCommand_zero_accepted std_clamp_zero)

lemma trigger_interlocks_rejected:
  assumes "h < length (actuatorObjs u)"
    and "h \<notin> set hs \<or> hasInterlock (actuatorObjs u ! h) \<or> \<not> isEnabled (actuatorObjs u ! h)"
  shows "actuatorObjs (trigger_interlocks hs u) ! h = actuatorObjs u ! h"
proof (cases "h \<in> set hs")
  case True
  with assms(2) have "setCommand 0 (actuatorObjs u ! h) = (False, actuatorObjs u ! h)"
    by (simp add: setCommand_rejected)
  then show ?thesis using assms(1) True by (simp add: trigger_interlocks_nth)
next
  case False
  then show ?thesis using assms(1) by (simp add: trigger_interlocks_nth)
qed

lemma map_of_three:
  assumes "length xs = 3" and "f (xs ! 0) = a" and "f (xs ! 1) = b" and "f (xs ! 2) = c"
  shows "map f xs = [a, b, c]"
proof -
  from assms(1) obtain x y z where "xs = [x, y, z]"
    by (auto simp add: length_Suc_conv numeral_3_eq_3)
  with assms(2-4) show ?thesis by simp
qed

lemmas example_defs =
  main_world_def main_monitor_def MaxDepth_def MaxThrust_def MaxTemp_def addLimit_def
  SafetyMonitor_addActuator_def SafetyMonitor_new_def readSensor_def readCommand_def
  PressureSensor_readValue_def PressureSensor_new_def TemperatureSensor_new_def
  IMUSensor_new_def BUFFER_SIZE_def ThrusterMotor_def MotorController_new_def
  HydraulicValve_new_def unavailable_def unavailable_monitor_def
  MotorController_initialize_def HydraulicValve_initialize_def
  MotorController_setCommand_def HydraulicValve_setCommand_def std_clamp_def
  setCommand_at_def setInterlock_at_def dadd_zero ddiv_zero

text \<open>
  Claim C1, as the code has it.  Let the registered limits be \<open>pre @ l # post\<close>, let every
  limit of \<open>pre\<close>, sampled in registration order, be in range, and let the sample \<open>v\<close> of
  \<open>l\<close> be strictly below its minimum or strictly above its maximum.  Then the cycle marks
  the system unsafe, sets the violation text to the limit's name, \<open>out of range:\<close> and
  the printed value, sets the flag of \<open>l\<close>, clears the flags of \<open>pre\<close>, leaves \<open>post\<close> as
  it was and samples none of it: the store is the one the closure of \<open>l\<close> left, after
  \<^verbatim>\<open>setCommand(0.0)\<close> on every registered actuator.  When every limit is in range, every
  flag is cleared and the system is marked safe.

  What \<^verbatim>\<open>setCommand(0.0)\<close> on the registered actuators \<open>hs\<close> does to a store \<open>u\<close>: a
  registered actuator that is enabled and not interlocked accepts the call, and its
  command becomes zero clamped to its limits, which is zero when the limits contain zero,
  as those of every \<^verbatim>\<open>ThrusterMotor\<close> and every \<^verbatim>\<open>HydraulicValve\<close> do; an actuator
  that is interlocked or disabled rejects the call and stays as it was, its command
  included, and so does an actuator that is not registered.  No member function changes
  the limits of an actuator.
\<close>

theorem SafetyMonitor_update_first_violation_wins:
  "(sm_limits m = pre @ l # post \<and> all_in_range pre w = Some w1 \<and>
    sl_getValue l w1 = (Inr v, w2) \<and> (v < sl_minValue l \<or> v > sl_maxValue l) \<longrightarrow>
      SafetyMonitor_update to_string m w =
        (Inr True,
         m\<lparr>sm_limits := cleared pre @ l\<lparr>sl_isActive := True\<rparr> # post,
           sm_systemSafe := False,
           sm_lastViolation := sl_name l @ '' out of range: '' @ to_string v\<rparr>,
         trigger_interlocks (sm_controlledActuators m) w2)) \<and>
   (all_in_range (sm_limits m) w = Some w1 \<longrightarrow>
      SafetyMonitor_update to_string m w =
        (Inr True, m\<lparr>sm_limits := cleared (sm_limits m), sm_systemSafe := True\<rparr>, w1)) \<and>
   sensorObjs (trigger_interlocks hs u) = sensorObjs u \<and>
   length (actuatorObjs (trigger_interlocks hs u)) = length (actuatorObjs u) \<and>
   (\<forall>h<length (actuatorObjs u).
      (h \<in> set hs \<and> \<not> hasInterlock (actuatorObjs u ! h) \<and> isEnabled (actuatorObjs u ! h) \<longrightarrow>
         actuatorObjs (trigger_interlocks hs u) ! h = snd (setCommand 0 (actuatorObjs u ! h)) \<and>
         getCommand (actuatorObjs (trigger_interlocks hs u) ! h) =
           std_clamp 0 (minLimit (actuatorObjs u ! h)) (maxLimit (actuatorObjs u ! h)) \<and>
         (minLimit (actuatorObjs u ! h) \<le> 0 \<and> 0 \<le> maxLimit (actuatorObjs u ! h) \<longrightarrow>
            getCommand (actuatorObjs (trigger_interlocks hs u) ! h) = 0)) \<and>
      (h \<notin> set hs \<or> hasInterlock (actuatorObjs u ! h) \<or> \<not> isEnabled (actuatorObjs u ! h) \<longrightarrow>
         actuatorObjs (trigger_interlocks hs u) ! h = actuatorObjs u ! h)) \<and>
   minLimit (Motor (ThrusterMotor name)) = - 100 \<and>
   maxLimit (Motor (ThrusterMotor name)) = 100 \<and>
   minLimit (Valve valve) = 0 \<and> maxLimit (Valve valve) = 100 \<and>
   minLimit (snd (setCommand c a)) = minLimit a \<and>
   maxLimit (snd (setCommand c a)) = maxLimit a \<and>
   minLimit (snd (actuator_initialize a)) = minLimit a \<and>
   maxLimit (snd (actuator_initialize a)) = maxLimit a \<and>
   minLimit (snd (actuator_update a)) = minLimit a \<and>
   maxLimit (snd (actuator_update a)) = maxLimit a \<and>
   minLimit (snd (actuator_shutdown a)) = minLimit a \<and>
   maxLimit (snd (actuator_shutdown a)) = maxLimit a \<and>
   minLimit (setInterlock b a) = minLimit a \<and>
   maxLimit (setInterlock b a) = maxLimit a"
proof -
  have violation:
    "sm_limits m = pre @ l # post \<and> all_in_range pre w = Some w1 \<and>
     sl_getValue l w1 = (Inr v, w2) \<and> (v < sl_minValue l \<or> v > sl_maxValue l) \<longrightarrow>
       SafetyMonitor_update to_string m w =
         (Inr True,
          m\<lparr>sm_limits := cleared pre @ l\<lparr>sl_isActive := True\<rparr> # post,
            sm_systemSafe := False,
            sm_lastViolation := sl_name l @ '' out of range: '' @ to_string v\<rparr>,
          trigger_interlocks (sm_controlledActuators m) w2)"
    using update_violation [of m pre l post w w1 v w2 to_string] by simp
  have safe:
    "all_in_range (sm_limits m) w = Some w1 \<longrightarrow>
       SafetyMonitor_update to_string m w =
         (Inr True, m\<lparr>sm_limits := cleared (sm_limits m), sm_systemSafe := True\<rparr>, w1)"
    using update_safe [of m w w1 to_string] by simp
  have actuators:
    "\<forall>h<length (actuatorObjs u).
      (h \<in> set hs \<and> \<not> hasInterlock (actuatorObjs u ! h) \<and> isEnabled (actuatorObjs u ! h) \<longrightarrow>
         actuatorObjs (trigger_interlocks hs u) ! h = snd (setCommand 0 (actuatorObjs u ! h)) \<and>
         getCommand (actuatorObjs (trigger_interlocks hs u) ! h) =
           std_clamp 0 (minLimit (actuatorObjs u ! h)) (maxLimit (actuatorObjs u ! h)) \<and>
         (minLimit (actuatorObjs u ! h) \<le> 0 \<and> 0 \<le> maxLimit (actuatorObjs u ! h) \<longrightarrow>
            getCommand (actuatorObjs (trigger_interlocks hs u) ! h) = 0)) \<and>
      (h \<notin> set hs \<or> hasInterlock (actuatorObjs u ! h) \<or> \<not> isEnabled (actuatorObjs u ! h) \<longrightarrow>
         actuatorObjs (trigger_interlocks hs u) ! h = actuatorObjs u ! h)"
    using trigger_interlocks_accepted [of _ u hs] trigger_interlocks_rejected [of _ u hs]
    by blast
  have thruster: "minLimit (Motor (ThrusterMotor name)) = - 100"
    "maxLimit (Motor (ThrusterMotor name)) = 100"
    by (simp_all add: ThrusterMotor_def MotorController_new_def)
  have valve: "minLimit (Valve valve) = 0" "maxLimit (Valve valve) = 100"
    by simp_all
  show ?thesis
    by (intro conjI; (rule violation safe actuators thruster valve limits_kept
          trigger_interlocks_sensors trigger_interlocks_length))
qed

theorem SafetyMonitor_update_first_violation_wins_witness:
  "sm_limits main_monitor = [MaxDepth] @ MaxThrust # [MaxTemp] \<and>
   all_in_range [MaxDepth] (main_world 60) = Some (snd (readSensor 0 (main_world 60))) \<and>
   sl_getValue MaxThrust (snd (readSensor 0 (main_world 60))) =
     (Inr 60, snd (readSensor 0 (main_world 60))) \<and>
   (60 < sl_minValue MaxThrust \<or> 60 > sl_maxValue MaxThrust) \<and>
   fst (SafetyMonitor_update (\<lambda>v. ''60.000000'') main_monitor (main_world 60)) = Inr True \<and>
   \<not> isSystemSafe (fst (snd
       (SafetyMonitor_update (\<lambda>v. ''60.000000'') main_monitor (main_world 60)))) \<and>
   getLastViolation (fst (snd
       (SafetyMonitor_update (\<lambda>v. ''60.000000'') main_monitor (main_world 60))))
     = ''MaxThrust out of range: 60.000000'' \<and>
   map sl_isActive (sm_limits (fst (snd
       (SafetyMonitor_update (\<lambda>v. ''60.000000'') main_monitor (main_world 60)))))
     = [False, True, False] \<and>
   sm_controlledActuators main_monitor = [0, 1, 2] \<and>
   map getCommand (actuatorObjs (main_world 60)) = [40, 60, 30] \<and>
   map hasInterlock (actuatorObjs (main_world 60)) = [False, False, False] \<and>
   map isEnabled (actuatorObjs (main_world 60)) = [True, True, True] \<and>
   map getCommand (actuatorObjs (snd (snd
       (SafetyMonitor_update (\<lambda>v. ''60.000000'') main_monitor (main_world 60)))))
     = [0, 0, 0] \<and>
   all_in_range (sm_limits main_monitor) (main_world 20) \<noteq> None \<and>
   isSystemSafe (fst (snd
       (SafetyMonitor_update (\<lambda>v. ''60.000000'') main_monitor (main_world 20)))) \<and>
   map sl_isActive (sm_limits (fst (snd
       (SafetyMonitor_update (\<lambda>v. ''60.000000'') main_monitor (main_world 20)))))
     = [False, False, False] \<and>
   map getCommand (actuatorObjs (snd (snd
       (SafetyMonitor_update (\<lambda>v. ''60.000000'') main_monitor (main_world 20)))))
     = [40, 20, 30] \<and>
   hasInterlock (actuatorObjs (setInterlock_at 0 True (main_world 60)) ! 0) \<and>
   getCommand (actuatorObjs (setInterlock_at 0 True (main_world 60)) ! 0) = 40 \<and>
   getCommand (actuatorObjs
       (trigger_interlocks [0, 1, 2] (setInterlock_at 0 True (main_world 60))) ! 0) = 40"
proof -
  let ?w = "main_world 60"
  let ?w1 = "snd (readSensor 0 ?w)"
  let ?f = "\<lambda>v::real. ''60.000000''"
  let ?s = "main_world 20"
  let ?s1 = "the (all_in_range (sm_limits main_monitor) ?s)"
  have lim: "sm_limits main_monitor = [MaxDepth] @ MaxThrust # [MaxTemp]"
    by (simp add: example_defs)
  have pre: "all_in_range [MaxDepth] ?w = Some ?w1"
    by (simp add: example_defs)
  have viol: "sl_getValue MaxThrust ?w1 = (Inr 60, ?w1)"
    by (simp add: example_defs)
  have out: "60 < sl_minValue MaxThrust \<or> 60 > sl_maxValue MaxThrust"
    by (simp add: MaxThrust_def)
  have hs: "sm_controlledActuators main_monitor = [0, 1, 2]"
    by (simp add: example_defs)
  have before: "map getCommand (actuatorObjs ?w) = [40, 60, 30]"
    "map hasInterlock (actuatorObjs ?w) = [False, False, False]"
    "map isEnabled (actuatorObjs ?w) = [True, True, True]"
    by (simp_all add: example_defs)
  have len: "length (actuatorObjs ?w1) = 3"
    by (simp add: example_defs)
  note inst = SafetyMonitor_update_first_violation_wins
    [where m = main_monitor and pre = "[MaxDepth]" and l = MaxThrust and post = "[MaxTemp]"
       and w = "?w" and ?w1.0 = "?w1" and v = 60 and ?w2.0 = "?w1" and to_string = "?f"
       and hs = "[0, 1, 2]" and u = "?w1"]
  have "SafetyMonitor_update ?f main_monitor ?w =
      (Inr True,
       main_monitor\<lparr>sm_limits := cleared [MaxDepth] @ MaxThrust\<lparr>sl_isActive := True\<rparr> # [MaxTemp],
         sm_systemSafe := False,
         sm_lastViolation := sl_name MaxThrust @ '' out of range: '' @ ''60.000000''\<rparr>,
       trigger_interlocks (sm_controlledActuators main_monitor) ?w1)"
    using inst [THEN conjunct1] lim pre viol out by blast
  then have upd: "SafetyMonitor_update ?f main_monitor ?w =
      (Inr True,
       main_monitor\<lparr>sm_limits := cleared [MaxDepth] @ MaxThrust\<lparr>sl_isActive := True\<rparr> # [MaxTemp],
         sm_systemSafe := False,
         sm_lastViolation := sl_name MaxThrust @ '' out of range: '' @ ''60.000000''\<rparr>,
       trigger_interlocks [0, 1, 2] ?w1)"
    by (simp only: hs)
  note each = inst [THEN conjunct2, THEN conjunct2, THEN conjunct2, THEN conjunct2,
    THEN conjunct1, rule_format]
  have zero: "getCommand (actuatorObjs (trigger_interlocks [0, 1, 2] ?w1) ! h) = 0"
    if "h = 0 \<or> h = 1 \<or> h = 2" for h
  proof -
    from that have c: "h \<in> set [0, 1, 2]" "\<not> hasInterlock (actuatorObjs ?w1 ! h)"
      "isEnabled (actuatorObjs ?w1 ! h)" "minLimit (actuatorObjs ?w1 ! h) \<le> 0"
      "0 \<le> maxLimit (actuatorObjs ?w1 ! h)"
      by (auto simp add: example_defs)
    from that len have "h < length (actuatorObjs ?w1)" by auto
    from each [OF this] c show ?thesis by blast
  qed
  have len': "length (actuatorObjs (trigger_interlocks [0, 1, 2] ?w1)) = 3"
    using inst [THEN conjunct2, THEN conjunct2, THEN conjunct2, THEN conjunct1] len
    by (rule trans)
  have z0: "getCommand (actuatorObjs (trigger_interlocks [0, 1, 2] ?w1) ! 0) = 0"
    by (rule zero) simp
  have z1: "getCommand (actuatorObjs (trigger_interlocks [0, 1, 2] ?w1) ! 1) = 0"
    by (rule zero) simp
  have z2: "getCommand (actuatorObjs (trigger_interlocks [0, 1, 2] ?w1) ! 2) = 0"
    by (rule zero) simp
  have after: "map getCommand (actuatorObjs (trigger_interlocks [0, 1, 2] ?w1)) = [0, 0, 0]"
    by (rule map_of_three [OF len' z0 z1 z2])
  have safe: "all_in_range (sm_limits main_monitor) ?s = Some ?s1"
    by (simp add: example_defs)
  have upd2: "SafetyMonitor_update ?f main_monitor ?s =
      (Inr True, main_monitor\<lparr>sm_limits := cleared (sm_limits main_monitor),
         sm_systemSafe := True\<rparr>, ?s1)"
    using SafetyMonitor_update_first_violation_wins
      [where m = main_monitor and w = "?s" and ?w1.0 = "?s1" and to_string = "?f",
        THEN conjunct2, THEN conjunct1] safe
    by blast
  have s1: "map getCommand (actuatorObjs ?s1) = [40, 20, 30]"
    by (simp add: example_defs)
  have r1: "fst (SafetyMonitor_update ?f main_monitor ?w) = Inr True"
    by (simp add: upd)
  have r2: "\<not> isSystemSafe (fst (snd (SafetyMonitor_update ?f main_monitor ?w)))"
    by (simp add: upd isSystemSafe_def)
  have r3: "getLastViolation (fst (snd (SafetyMonitor_update ?f main_monitor ?w)))
      = ''MaxThrust out of range: 60.000000''"
    by (simp add: upd getLastViolation_def MaxThrust_def)
  have r4: "map sl_isActive (sm_limits (fst (snd (SafetyMonitor_update ?f main_monitor ?w))))
      = [False, True, False]"
    by (simp add: upd cleared_def MaxDepth_def MaxThrust_def MaxTemp_def)
  have r5: "map getCommand (actuatorObjs (snd (snd (SafetyMonitor_update ?f main_monitor ?w))))
      = [0, 0, 0]"
    by (simp only: upd snd_conv after)
  have r6: "all_in_range (sm_limits main_monitor) ?s \<noteq> None"
    by (simp add: example_defs)
  have r7: "isSystemSafe (fst (snd (SafetyMonitor_update ?f main_monitor ?s)))"
    by (simp add: upd2 isSystemSafe_def)
  have r8: "map sl_isActive (sm_limits (fst (snd (SafetyMonitor_update ?f main_monitor ?s))))
      = [False, False, False]"
    by (simp add: upd2 cleared_def lim)
  have r9: "map getCommand (actuatorObjs (snd (snd (SafetyMonitor_update ?f main_monitor ?s))))
      = [40, 20, 30]"
    by (simp only: upd2 snd_conv s1)
  let ?i = "setInterlock_at 0 True (main_world 60)"
  have locked: "hasInterlock (actuatorObjs ?i ! 0)"
    by (simp add: example_defs)
  have kept: "getCommand (actuatorObjs ?i ! 0) = 40"
    by (simp add: example_defs)
  have first: "0 < length (actuatorObjs ?i)"
    by (simp add: example_defs)
  note rejected = SafetyMonitor_update_first_violation_wins
    [where hs = "[0, 1, 2]" and u = "?i", THEN conjunct2, THEN conjunct2, THEN conjunct2,
      THEN conjunct2, THEN conjunct1, rule_format, OF first, THEN conjunct2]
  from rejected locked
  have "actuatorObjs (trigger_interlocks [0, 1, 2] ?i) ! 0 = actuatorObjs ?i ! 0"
    by blast
  then have r10: "getCommand (actuatorObjs (trigger_interlocks [0, 1, 2] ?i) ! 0) = 40"
    by (simp only: kept)
  show ?thesis
    by (intro conjI;
        (rule lim pre viol out hs before r1 r2 r3 r4 r5 r6 r7 r8 r9 locked kept r10))
qed

text \<open>
  Claim C1 as the specification states it has every registered actuator commanded to
  zero.  With the vertical thruster interlocked at command \<open>40\<close>, a cycle that finds the
  horizontal thruster's command out of range marks the system unsafe and zeroes the other
  two actuators; the vertical thruster, registered with the monitor, rejects the call and
  keeps its command.
\<close>

theorem SafetyMonitor_update_interlocked_actuator_counterexample:
  "sm_controlledActuators main_monitor = [0, 1, 2] \<and>
   map hasInterlock (actuatorObjs (setInterlock_at 0 True (main_world 60)))
     = [True, False, False] \<and>
   map getCommand (actuatorObjs (setInterlock_at 0 True (main_world 60))) = [40, 60, 30] \<and>
   fst (SafetyMonitor_update (\<lambda>v. ''60.000000'') main_monitor
     (setInterlock_at 0 True (main_world 60))) = Inr True \<and>
   \<not> isSystemSafe (fst (snd (SafetyMonitor_update (\<lambda>v. ''60.000000'') main_monitor
     (setInterlock_at 0 True (main_world 60))))) \<and>
   getLastViolation (fst (snd (SafetyMonitor_update (\<lambda>v. ''60.000000'') main_monitor
     (setInterlock_at 0 True (main_world 60))))) = ''MaxThrust out of range: 60.000000'' \<and>
   map getCommand (actuatorObjs (snd (snd (SafetyMonitor_update (\<lambda>v. ''60.000000'')
     main_monitor (setInterlock_at 0 True (main_world 60)))))) = [40, 0, 0]"
  by (simp add: example_defs SafetyMonitor_update_def isSystemSafe_def getLastViolation_def)

text \<open>
  Claim C4, as the code has it: when the closure of a limit throws, the exception leaves
  \<^verbatim>\<open>update\<close>: the system stays marked safe, as the cycle marked it on entry, the flag
  of the failing limit and of the limits after it, the violation text and the actuators
  are as they were, and the limits after it are not sampled.
\<close>

theorem SafetyMonitor_update_sample_throws:
  "sm_limits m = pre @ l # post \<and> all_in_range pre w = Some w1 \<and>
   sl_getValue l w1 = (Inl e, w2) \<longrightarrow>
     SafetyMonitor_update to_string m w =
       (Inl e, m\<lparr>sm_limits := cleared pre @ l # post, sm_systemSafe := True\<rparr>, w2)"
  using update_throw [of m pre l post w w1 e w2 to_string] by simp

theorem SafetyMonitor_update_sample_throws_witness:
  "sm_limits unavailable_monitor = [] @ hd (sm_limits unavailable_monitor) # [] \<and>
   all_in_range [] (main_world 20) = Some (main_world 20) \<and>
   sl_getValue (hd (sm_limits unavailable_monitor)) (main_world 20) =
     (Inl (Exception ''sensor unavailable''), main_world 20) \<and>
   SafetyMonitor_update (\<lambda>v. []) unavailable_monitor (main_world 20) =
     (Inl (Exception ''sensor unavailable''), unavailable_monitor, main_world 20)"
  using SafetyMonitor_update_sample_throws
    [of unavailable_monitor "[]" "hd (sm_limits unavailable_monitor)" "[]" "main_world 20"
       "main_world 20" "Exception ''sensor unavailable''" "main_world 20" "\<lambda>v. []"]
  by (simp add: example_defs cleared_def)

text \<open>
  Claim C4 as the specification states it: with a limit whose closure throws, the cycle
  ends with the system marked safe, the limit inactive and the registered thruster still
  commanded to \<open>40\<close>.
\<close>

theorem SafetyMonitor_update_sample_throws_counterexample:
  "sl_getValue (hd (sm_limits unavailable_monitor)) (main_world 20) =
     (Inl (Exception ''sensor unavailable''), main_world 20) \<and>
   isSystemSafe (fst (snd (SafetyMonitor_update (\<lambda>v. []) unavailable_monitor (main_world 20)))) \<and>
   map sl_isActive (sm_limits
     (fst (snd (SafetyMonitor_update (\<lambda>v. []) unavailable_monitor (main_world 20))))) = [False] \<and>
   sm_controlledActuators unavailable_monitor = [0] \<and>
   getCommand (actuatorObjs
     (snd (snd (SafetyMonitor_update (\<lambda>v. []) unavailable_monitor (main_world 20)))) ! 0) = 40"
  by (simp add: example_defs SafetyMonitor_update_def isSystemSafe_def)

text \<open>
  Claim C5, as the code has it: \<^verbatim>\<open>addLimit\<close> has no failure: whatever the name and
  the bounds, it appends the new check, inactive, after the registered ones and changes
  nothing else.
\<close>

theorem addLimit_appends:
  "sm_limits (addLimit name getValue minVal maxVal m) =
     sm_limits m @ [\<lparr>sl_name = name, sl_getValue = getValue, sl_minValue = minVal,
                     sl_maxValue = maxVal, sl_isActive = False\<rparr>] \<and>
   sm_controlledActuators (addLimit name getValue minVal maxVal m) = sm_controlledActuators m \<and>
   sm_systemSafe (addLimit name getValue minVal maxVal m) = sm_systemSafe m \<and>
   sm_lastViolation (addLimit name getValue minVal maxVal m) = sm_lastViolation m"
  by (simp add: addLimit_def)

text \<open>
  Claim C5 as the specification states it: a second \<^verbatim>\<open>MaxDepth\<close> whose minimum
  exceeds its maximum is registered beside the first.
\<close>

theorem addLimit_duplicate_counterexample:
  "sm_limits (addLimit ''MaxDepth'' (readSensor 0) 0 100 SafetyMonitor_new) =
     [\<lparr>sl_name = ''MaxDepth'', sl_getValue = readSensor 0, sl_minValue = 0,
       sl_maxValue = 100, sl_isActive = False\<rparr>] \<and>
   sm_limits (addLimit ''MaxDepth'' (readSensor 0) 100 0
      (addLimit ''MaxDepth'' (readSensor 0) 0 100 SafetyMonitor_new)) =
     [\<lparr>sl_name = ''MaxDepth'', sl_getValue = readSensor 0, sl_minValue = 0,
       sl_maxValue = 100, sl_isActive = False\<rparr>,
      \<lparr>sl_name = ''MaxDepth'', sl_getValue = readSensor 0, sl_minValue = 100,
       sl_maxValue = 0, sl_isActive = False\<rparr>]"
  by (simp add: addLimit_def SafetyMonitor_new_def)

text \<open>
  Claim C8, as the code has it: a cycle in which every limit is in range marks the system
  safe and leaves the violation text as it was; a cycle that a throwing closure ends,
  \<^verbatim>\<open>initialize\<close> and the registrations leave it as it was too; the text is empty in
  a new monitor.
\<close>

theorem lastViolation_kept_when_safe:
  "(all_in_range (sm_limits m) w = Some w1 \<longrightarrow>
      isSystemSafe (fst (snd (SafetyMonitor_update to_string m w))) \<and>
      getLastViolation (fst (snd (SafetyMonitor_update to_string m w))) = getLastViolation m) \<and>
   (sm_limits m = pre @ l # post \<and> all_in_range pre w = Some w1 \<and>
    sl_getValue l w1 = (Inl e, w2) \<longrightarrow>
      getLastViolation (fst (snd (SafetyMonitor_update to_string m w))) = getLastViolation m) \<and>
   getLastViolation SafetyMonitor_new = [] \<and>
   getLastViolation (snd (SafetyMonitor_initialize m)) = getLastViolation m \<and>
   getLastViolation (addLimit name getValue minVal maxVal m) = getLastViolation m \<and>
   getLastViolation (SafetyMonitor_addActuator a m) = getLastViolation m"
  using update_safe [of m w w1 to_string] update_throw [of m pre l post w w1 e w2 to_string]
  by (simp add: isSystemSafe_def getLastViolation_def SafetyMonitor_new_def
        SafetyMonitor_initialize_def addLimit_def SafetyMonitor_addActuator_def)

theorem lastViolation_kept_when_safe_witness:
  "all_in_range (sm_limits main_monitor) (main_world 20) \<noteq> None \<and>
   isSystemSafe (fst (snd (SafetyMonitor_update (\<lambda>v. []) main_monitor (main_world 20)))) \<and>
   getLastViolation (fst (snd (SafetyMonitor_update (\<lambda>v. []) main_monitor (main_world 20)))) = []"
  using lastViolation_kept_when_safe
    [of main_monitor "main_world 20"
       "the (all_in_range (sm_limits main_monitor) (main_world 20))" "\<lambda>v. []"]
  by (simp add: example_defs getLastViolation_def)

text \<open>
  Claim C8 as the specification states it: a cycle with the horizontal thruster commanded
  to \<open>60\<close> violates \<^verbatim>\<open>MaxThrust\<close> and commands the thruster to zero; the next cycle,
  on the store and the monitor the first one left, finds every limit in range and marks
  the system safe, and the violation text is still that of the first.
\<close>

theorem lastViolation_not_cleared_counterexample:
  "\<not> isSystemSafe (fst (snd (SafetyMonitor_update (\<lambda>v. ''60.000000'') main_monitor (main_world 60)))) \<and>
   isSystemSafe (fst (snd (SafetyMonitor_update (\<lambda>v. ''60.000000'')
     (fst (snd (SafetyMonitor_update (\<lambda>v. ''60.000000'') main_monitor (main_world 60))))
     (snd (snd (SafetyMonitor_update (\<lambda>v. ''60.000000'') main_monitor (main_world 60))))))) \<and>
   getLastViolation (fst (snd (SafetyMonitor_update (\<lambda>v. ''60.000000'')
     (fst (snd (SafetyMonitor_update (\<lambda>v. ''60.000000'') main_monitor (main_world 60))))
     (snd (snd (SafetyMonitor_update (\<lambda>v. ''60.000000'') main_monitor (main_world 60)))))))
     = ''MaxThrust out of range: 60.000000''"
  by (simp add: example_defs SafetyMonitor_update_def isSystemSafe_def getLastViolation_def)

section \<open>Properties of the ECU watchdog\<close>

lemma duration_cast_seconds_gt5: "duration_cast_seconds d > 5 \<longleftrightarrow> d \<ge> seconds 6"
proof (cases "d < 0")
  case True
  then have "0 \<le> (- d) div 1000000000" by simp
  with True show ?thesis by (simp add: duration_cast_seconds_def seconds_def)
next
  case False
  have "5 < d div 1000000000 \<longleftrightarrow> 6000000000 \<le> d" by linarith
  with False show ?thesis by (simp add: duration_cast_seconds_def seconds_def)
qed

lemma ECU_update_degrades:
  "ecu_status e = ONLINE \<Longrightarrow> duration_cast_seconds (now - ecu_lastCommunication e) > 5 \<Longrightarrow>
   getECUStatus (snd (ECU_update now e)) = DEGRADED \<and>
   getCommunicationErrors (snd (ECU_update now e)) = getCommunicationErrors e + 1"
  by (simp add: ECU_update_def Let_def updateHealthMetrics_def getECUStatus_def
        getCommunicationErrors_def)

lemma ECU_update_keeps:
  "\<not> (ecu_status e = ONLINE \<and> duration_cast_seconds (now - ecu_lastCommunication e) > 5) \<Longrightarrow>
   getECUStatus (snd (ECU_update now e)) = getECUStatus e \<and>
   getCommunicationErrors (snd (ECU_update now e)) = getCommunicationErrors e"
  by (auto simp add: ECU_update_def Let_def updateHealthMetrics_def getECUStatus_def
        getCommunicationErrors_def)

lemma observe_online:
  "ecu_status e = ONLINE \<or> ecu_status e = DEGRADED \<Longrightarrow>
   ecu_status (updateCommunicationTimestamp t e) = ONLINE \<and>
   ecu_lastCommunication (updateCommunicationTimestamp t e) = t"
  by (auto simp add: updateCommunicationTimestamp_def Let_def)

text \<open>
  Claim C2, as the code has it: the elapsed time is truncated to whole seconds before it
  is compared with \<open>5\<close>.  An online ECU whose truncated elapsed time exceeds \<open>5\<close>, which
  is when at least six seconds have passed, becomes degraded and counts one more error;
  an online ECU that was heard of less than six seconds ago stays online.  After a
  communication at \<open>t0\<close> the ECU is still online at \<open>t0 + 5.001 s\<close> and degraded at
  \<open>t0 + 6 s\<close>, and a further communication followed by \<^verbatim>\<open>update\<close> finds it online.
\<close>

theorem ECU_update_watchdog:
  "(ecu_status e = ONLINE \<and> duration_cast_seconds (now - ecu_lastCommunication e) > 5 \<longrightarrow>
      getECUStatus (snd (ECU_update now e)) = DEGRADED \<and>
      getCommunicationErrors (snd (ECU_update now e)) = getCommunicationErrors e + 1) \<and>
   (duration_cast_seconds (now - ecu_lastCommunication e) > 5 \<longleftrightarrow>
      now - ecu_lastCommunication e \<ge> seconds 6) \<and>
   (ecu_status e = ONLINE \<and> now - ecu_lastCommunication e < seconds 6 \<longrightarrow>
      getECUStatus (snd (ECU_update now e)) = ONLINE \<and>
      getCommunicationErrors (snd (ECU_update now e)) = getCommunicationErrors e) \<and>
   (ecu_status e = ONLINE \<or> ecu_status e = DEGRADED \<longrightarrow>
      getECUStatus (snd (ECU_update (t0 + milliseconds 5001)
        (updateCommunicationTimestamp t0 e))) = ONLINE \<and>
      getECUStatus (snd (ECU_update (t0 + seconds 6)
        (updateCommunicationTimestamp t0 e))) = DEGRADED \<and>
      getECUStatus (snd (ECU_update t1 (updateCommunicationTimestamp t1
        (snd (ECU_update (t0 + seconds 6) (updateCommunicationTimestamp t0 e)))))) = ONLINE)"
proof (intro conjI impI)
  assume a: "ecu_status e = ONLINE \<and> 5 < duration_cast_seconds (now - ecu_lastCommunication e)"
  then show "getECUStatus (snd (ECU_update now e)) = DEGRADED"
    and "getCommunicationErrors (snd (ECU_update now e)) = getCommunicationErrors e + 1"
    using ECU_update_degrades [of e now] by simp_all
next
  show "(5 < duration_cast_seconds (now - ecu_lastCommunication e)) =
    (seconds 6 \<le> now - ecu_lastCommunication e)"
    by (rule duration_cast_seconds_gt5)
next
  assume a: "ecu_status e = ONLINE \<and> now - ecu_lastCommunication e < seconds 6"
  then have "\<not> 5 < duration_cast_seconds (now - ecu_lastCommunication e)"
    by (simp add: duration_cast_seconds_gt5)
  with a show "getECUStatus (snd (ECU_update now e)) = ONLINE"
    and "getCommunicationErrors (snd (ECU_update now e)) = getCommunicationErrors e"
    using ECU_update_keeps [of e now] by (simp_all add: getECUStatus_def)
next
  assume a: "ecu_status e = ONLINE \<or> ecu_status e = DEGRADED"
  let ?e = "updateCommunicationTimestamp t0 e"
  have o: "ecu_status ?e = ONLINE" "ecu_lastCommunication ?e = t0"
    using observe_online [OF a, of t0] by simp_all
  have early: "\<not> 5 < duration_cast_seconds (t0 + milliseconds 5001 - ecu_lastCommunication ?e)"
    by (simp add: o duration_cast_seconds_gt5 seconds_def milliseconds_def)
  show "getECUStatus (snd (ECU_update (t0 + milliseconds 5001) ?e)) = ONLINE"
    using ECU_update_keeps [of ?e "t0 + milliseconds 5001"] early o
    by (simp add: getECUStatus_def)
  have late: "5 < duration_cast_seconds (t0 + seconds 6 - ecu_lastCommunication ?e)"
    by (simp add: o duration_cast_seconds_gt5)
  show d: "getECUStatus (snd (ECU_update (t0 + seconds 6) ?e)) = DEGRADED"
    using ECU_update_degrades [of ?e "t0 + seconds 6"] late o by simp
  let ?d = "snd (ECU_update (t0 + seconds 6) ?e)"
  have o1: "ecu_status (updateCommunicationTimestamp t1 ?d) = ONLINE"
    "ecu_lastCommunication (updateCommunicationTimestamp t1 ?d) = t1"
    using observe_online [of ?d t1] d by (simp_all add: getECUStatus_def)
  have "\<not> 5 < duration_cast_seconds (t1 - ecu_lastCommunication (updateCommunicationTimestamp t1 ?d))"
    by (simp add: o1 duration_cast_seconds_def)
  then show "getECUStatus (snd (ECU_update t1 (updateCommunicationTimestamp t1 ?d))) = ONLINE"
    using ECU_update_keeps [of "updateCommunicationTimestamp t1 ?d" t1] o1
    by (simp add: getECUStatus_def)
qed

lemmas ecu_example_defs =
  ECU01_def ECU02_def ECU_new_def ECU_initialize_def establishCommunication_def
  updateCommunicationTimestamp_def ECU_update_def updateHealthMetrics_def
  duration_cast_seconds_def seconds_def milliseconds_def getECUStatus_def
  getCommunicationErrors_def

theorem ECU_update_watchdog_witness:
  "ecu_status (snd (ECU_initialize ECU02)) = ONLINE \<and>
   duration_cast_seconds (seconds 6 - ecu_lastCommunication (snd (ECU_initialize ECU02))) > 5 \<and>
   getECUStatus (snd (ECU_update (seconds 6) (snd (ECU_initialize ECU02)))) = DEGRADED \<and>
   getCommunicationErrors (snd (ECU_update (seconds 6) (snd (ECU_initialize ECU02)))) = 1 \<and>
   seconds 6 - ecu_lastCommunication (snd (ECU_initialize ECU02)) \<ge> seconds 6 \<and>
   milliseconds 5999 - ecu_lastCommunication (snd (ECU_initialize ECU02)) < seconds 6 \<and>
   getECUStatus (snd (ECU_update (milliseconds 5999) (snd (ECU_initialize ECU02)))) = ONLINE \<and>
   getECUStatus (snd (ECU_update (seconds 7 + seconds 6)
     (updateCommunicationTimestamp (seconds 7) (snd (ECU_initialize ECU02))))) = DEGRADED"
  using ECU_update_watchdog [of "snd (ECU_initialize ECU02)" "seconds 6" "seconds 7" 0]
    ECU_update_watchdog [of "snd (ECU_initialize ECU02)" "milliseconds 5999" "seconds 7" 0]
  by (simp add: ecu_example_defs)

text \<open>
  Claim C2 as the specification states it: \<open>5.001\<close> seconds after the last
  communication more than five seconds have elapsed, and the ECU is still online with no
  error counted.
\<close>

theorem ECU_update_watchdog_counterexample:
  "ecu_status (updateCommunicationTimestamp 0 (snd (ECU_initialize ECU02))) = ONLINE \<and>
   milliseconds 5001
     - ecu_lastCommunication (updateCommunicationTimestamp 0 (snd (ECU_initialize ECU02)))
     > seconds 5 \<and>
   getECUStatus (snd (ECU_update (milliseconds 5001)
     (updateCommunicationTimestamp 0 (snd (ECU_initialize ECU02))))) = ONLINE \<and>
   getCommunicationErrors (snd (ECU_update (milliseconds 5001)
     (updateCommunicationTimestamp 0 (snd (ECU_initialize ECU02))))) = 0"
  by (simp add: ecu_example_defs)

section \<open>Properties of the ECU manager\<close>

lemma ecus_find_assign:
  "ecus_find key (ecus_assign k ecu xs) = (if key = k then Some ecu else ecus_find key xs)"
  by (induction xs) auto

lemma keys_ecus_assign: "fst ` set (ecus_assign k ecu xs) = insert k (fst ` set xs)"
proof (induction xs)
  case Nil
  show ?case by simp
next
  case (Cons a xs)
  obtain k' e' where a: "a = (k', e')" by (cases a)
  show ?case
  proof (cases "k = k'")
    case True
    then show ?thesis by (simp add: a)
  next
    case False
    then show ?thesis using Cons by (cases "k < k'") (simp_all add: a insert_commute)
  qed
qed

lemma ecus_find_None: "ecus_find k xs = None \<longleftrightarrow> k \<notin> fst ` set xs"
proof (induction xs)
  case Nil
  show ?case by simp
next
  case (Cons a xs)
  obtain k' e' where a: "a = (k', e')" by (cases a)
  show ?case using Cons by (cases "k = k'") (simp_all add: a)
qed

lemma sorted_ecus_assign:
  "sorted (map fst xs) \<Longrightarrow> distinct (map fst xs) \<Longrightarrow>
   sorted (map fst (ecus_assign k ecu xs)) \<and> distinct (map fst (ecus_assign k ecu xs))"
proof (induction xs)
  case Nil
  show ?case by simp
next
  case (Cons a xs)
  obtain k' e' where a: "a = (k', e')" by (cases a)
  have IH: "sorted (map fst (ecus_assign k ecu xs))" "distinct (map fst (ecus_assign k ecu xs))"
    using Cons by simp_all
  have keys: "fst ` set (ecus_assign k ecu xs) = insert k (fst ` set xs)" by (rule keys_ecus_assign)
  have low: "\<forall>x\<in>set xs. k' \<le> fst x" and new: "k' \<notin> fst ` set xs"
    using Cons.prems by (simp_all add: a)
  show ?case
  proof (cases "k = k'")
    case True
    then show ?thesis using Cons.prems by (simp add: a)
  next
    case ne: False
    show ?thesis
    proof (cases "k < k'")
      case True
      then have "\<forall>x\<in>set xs. k \<le> fst x" using low by fastforce
      moreover have "k \<notin> fst ` set xs" using low True by fastforce
      ultimately show ?thesis using Cons.prems True ne by (simp add: a)
    next
      case False
      then have "k' < k" using ne by simp
      then have "\<forall>y\<in>fst ` set (ecus_assign k ecu xs). k' \<le> y"
        unfolding keys using low by auto
      then have "\<forall>x\<in>set (ecus_assign k ecu xs). k' \<le> fst x" by simp
      moreover have "k' \<notin> fst ` set (ecus_assign k ecu xs)" using keys new ne by simp
      ultimately show ?thesis using IH False ne by (simp add: a)
    qed
  qed
qed

lemma length_ecus_assign:
  "sorted (map fst xs) \<Longrightarrow>
   length (ecus_assign k ecu xs) = (if ecus_find k xs = None then Suc (length xs) else length xs)"
proof (induction xs)
  case Nil
  show ?case by simp
next
  case (Cons a xs)
  obtain k' e' where a: "a = (k', e')" by (cases a)
  have low: "\<forall>x\<in>set xs. k' \<le> fst x" using Cons.prems by (simp add: a)
  show ?case
  proof (cases "k = k'")
    case True
    then show ?thesis by (simp add: a)
  next
    case ne: False
    show ?thesis
    proof (cases "k < k'")
      case True
      then have "k \<notin> fst ` set xs" using low by fastforce
      then have "ecus_find k xs = None" by (simp add: ecus_find_None)
      then show ?thesis using True ne by (simp add: a)
    next
      case False
      then show ?thesis using Cons ne by (simp add: a)
    qed
  qed
qed

lemma updateSystemStatus_loop_all:
  "updateSystemStatus_loop xs True = (\<forall>(k, e)\<in>set xs. getECUStatus e = ONLINE)"
proof (induction xs)
  case Nil
  show ?case by simp
next
  case (Cons a xs)
  obtain k' e' where a: "a = (k', e')" by (cases a)
  show ?case using Cons by (simp add: a)
qed

text \<open>
  Claim C6, as the code has it: \<^verbatim>\<open>addECU\<close> has no failure.  Afterwards the id of the
  new ECU maps to the new ECU, whether the id was registered or not, and every other id
  maps to what it did; the keys stay sorted and distinct, the count grows by one exactly
  when the id was new, and the aggregate flag is not touched.
\<close>

theorem addECU_inserts_or_replaces:
  "getECU ecuID (addECU ecu m) = (if ecuID = ecu_ecuID ecu then Some ecu else getECU ecuID m) \<and>
   (sorted (map fst (em_ecus m)) \<and> distinct (map fst (em_ecus m)) \<longrightarrow>
      sorted (map fst (em_ecus (addECU ecu m))) \<and> distinct (map fst (em_ecus (addECU ecu m))) \<and>
      getTotalECUCount (addECU ecu m) =
        (if getECU (ecu_ecuID ecu) m = None then getTotalECUCount m + 1
         else getTotalECUCount m)) \<and>
   areAllECUsOnline (addECU ecu m) = areAllECUsOnline m"
  using sorted_ecus_assign [of "em_ecus m" "ecu_ecuID ecu" ecu]
    length_ecus_assign [of "em_ecus m" "ecu_ecuID ecu" ecu]
  by (simp add: getECU_def addECU_def ecus_find_assign getTotalECUCount_def
        areAllECUsOnline_def)

lemmas manager_example_defs =
  ECUManager_new_def addECU_def getECU_def ECUManager_initialize_def ECUManager_update_def
  updateSystemStatus_def areAllECUsOnline_def getTotalECUCount_def

theorem addECU_inserts_or_replaces_witness:
  "sorted (map fst (em_ecus (addECU ECU02 (ECUManager_new ''TBM'')))) \<and>
   distinct (map fst (em_ecus (addECU ECU02 (ECUManager_new ''TBM'')))) \<and>
   map fst (em_ecus (addECU ECU01 (addECU ECU02 (ECUManager_new ''TBM'')))) = [''ECU01'', ''ECU02''] \<and>
   getECU ''ECU01'' (addECU ECU01 (addECU ECU02 (ECUManager_new ''TBM''))) = Some ECU01"
  using addECU_inserts_or_replaces [of "''ECU01''" ECU01 "addECU ECU02 (ECUManager_new ''TBM'')"]
  by (simp add: manager_example_defs ECU01_def ECU02_def ECU_new_def)

text \<open>
  Claim C6 as the specification states it: adding a second ECU under the id \<open>ECU01\<close>
  neither fails nor leaves the collection as it was; the first ECU is replaced.
\<close>

theorem addECU_duplicate_counterexample:
  "getECU ''ECU01'' (addECU ECU01 (ECUManager_new ''TBM'')) = Some ECU01 \<and>
   getECU ''ECU01'' (addECU (ECU_new 7 ''ECU01'' ''Spare Controller'' CUSTOM)
      (addECU ECU01 (ECUManager_new ''TBM'')))
     = Some (ECU_new 7 ''ECU01'' ''Spare Controller'' CUSTOM) \<and>
   ECU_new 7 ''ECU01'' ''Spare Controller'' CUSTOM \<noteq> ECU01"
  by (simp add: manager_example_defs ECU01_def ECU_new_def)

text \<open>
  Claim C7, as the code has it: \<^verbatim>\<open>areAllECUsOnline\<close> returns a stored flag.
  \<^verbatim>\<open>update\<close> and \<^verbatim>\<open>initialize\<close> recompute it, so that right after either it is
  true exactly when every registered ECU is online; \<^verbatim>\<open>addECU\<close> leaves it as it was,
  and it is false in a new manager and after \<^verbatim>\<open>shutdown\<close>.
\<close>

theorem allECUsOnline_recomputed:
  "areAllECUsOnline (snd (ECUManager_update now m)) =
     (\<forall>(k, e)\<in>set (em_ecus (snd (ECUManager_update now m))). getECUStatus e = ONLINE) \<and>
   areAllECUsOnline (snd (ECUManager_initialize m)) =
     (\<forall>(k, e)\<in>set (em_ecus (snd (ECUManager_initialize m))). getECUStatus e = ONLINE) \<and>
   areAllECUsOnline (addECU ecu m) = areAllECUsOnline m \<and>
   \<not> areAllECUsOnline (ECUManager_new name) \<and>
   \<not> areAllECUsOnline (snd (ECUManager_shutdown m))"
  by (simp add: ECUManager_update_def ECUManager_initialize_def updateSystemStatus_def
        areAllECUsOnline_def updateSystemStatus_loop_all addECU_def ECUManager_new_def
        ECUManager_shutdown_def split: prod.splits)

theorem allECUsOnline_recomputed_witness:
  "areAllECUsOnline (snd (ECUManager_update (seconds 1)
      (snd (ECUManager_initialize (addECU ECU02 (addECU ECU01 (ECUManager_new ''TBM''))))))) \<and>
   \<not> areAllECUsOnline (snd (ECUManager_update (seconds 6)
      (snd (ECUManager_initialize (addECU ECU02 (addECU ECU01 (ECUManager_new ''TBM'')))))))"
  using allECUsOnline_recomputed [of "seconds 1"
      "snd (ECUManager_initialize (addECU ECU02 (addECU ECU01 (ECUManager_new ''TBM''))))"]
    allECUsOnline_recomputed [of "seconds 6"
      "snd (ECUManager_initialize (addECU ECU02 (addECU ECU01 (ECUManager_new ''TBM''))))"]
  by (simp add: manager_example_defs ECU01_def ECU02_def ECU_new_def ECU_initialize_def
        establishCommunication_def ECU_update_def updateHealthMetrics_def
        duration_cast_seconds_def seconds_def getECUStatus_def)

text \<open>
  Claim C7 as the specification states it: after \<^verbatim>\<open>addECU\<close> on an initialised
  manager the query answers true although the ECU just registered is offline; and a new
  manager answers false although it has no ECU that is not online.
\<close>

theorem allECUsOnline_stale_counterexample:
  "areAllECUsOnline
     (addECU ECU02 (snd (ECUManager_initialize (addECU ECU01 (ECUManager_new ''TBM''))))) \<and>
   getECU ''ECU02''
     (addECU ECU02 (snd (ECUManager_initialize (addECU ECU01 (ECUManager_new ''TBM'')))))
     = Some ECU02 \<and>
   getECUStatus ECU02 = OFFLINE \<and>
   \<not> areAllECUsOnline (ECUManager_new ''TBM'') \<and>
   em_ecus (ECUManager_new ''TBM'') = []"
  by (simp add: manager_example_defs ECU01_def ECU02_def ECU_new_def ECU_initialize_def
        establishCommunication_def getECUStatus_def)

section \<open>Properties of the control loop\<close>



lemma sensors_reachable_cong:
  "sensorObjs w' = sensorObjs w \<Longrightarrow> sensors_reachable w' = sensors_reachable w"
  by (simp add: sensors_reachable_def)





lemma keeps_sensors_unavailable: "keeps_sensors unavailable"
  by (simp add: keeps_sensors_def unavailable_def)















end
